theory Spec2Isabelle
  imports Main "HOL-Library.Finite_Map"
begin

section \<open>Data model of the shape track\<close>

text \<open>
  Exceptions of \<^verbatim>\<open>myia/prim/shape_inferrers.py\<close> as values. \<open>InferenceError\<close> and
  \<open>MyiaShapeError\<close> are the two inference exceptions the module raises itself,
  \<open>AssertionError\<close> is raised by its \<^verbatim>\<open>raise AssertionError(...)\<close> statements, and the
  remaining constructors are the exceptions of the Python operations the module relies on
  (indexing, \<^verbatim>\<open>len\<close>, iteration, attribute and dictionary lookup, unpacking).
\<close>

datatype error =
    InferenceError | MyiaShapeError | AssertionError
  | TypeError | IndexError | KeyError | ValueError | AttributeError

text \<open>
  One axis of an array shape: a Python integer, or the sentinel \<^verbatim>\<open>ANYTHING\<close> (a named
  object compared by identity, so it is equal to itself and to nothing else).
\<close>

datatype dim = Dim int | ANYTHING

text \<open>
  The part of the type lattice the shape rules read: \<^verbatim>\<open>reshape\<close> asks a tuple type for
  the number of its \<^verbatim>\<open>elements\<close>, and \<^verbatim>\<open>from_value\<close> hands the class type of a dataclass
  and \<^verbatim>\<open>TypeType\<close> to a reference.
\<close>

datatype mtype = TupleT "mtype list" | ClassT string | TypeType | ScalarT

text \<open>
  What the value track answers for a reference: the sentinel \<^verbatim>\<open>ANYTHING\<close>, or a constant.
  The constants the shape rules consume are booleans (conditions), integers (indices),
  tuples of axis extents (target shapes) and types.
\<close>

datatype pyvalue = VANYTHING | VBool bool | VInt int | VTuple "dim list" | VType mtype

text \<open>A reference built by \<^verbatim>\<open>engine.vref\<close> from a known value and type.\<close>

datatype vref = VRef pyvalue mtype

text \<open>
  Inferrer objects, as the constructor calls of the module build them. \<open>RuleInferrer p\<close> is
  \<^verbatim>\<open>constructors[p](track)\<close>, the inferrer registered for the primitive named \<open>p\<close>; graphs
  and contexts are identified by numbers.
\<close>

type_synonym graph = nat
type_synonym ctx = nat

datatype inferrer =
    ScalarShapeInferrer
  | RuleInferrer string
  | GraphInferrer graph ctx
  | MetaGraphInferrer graph
  | PartialInferrer inferrer "vref list"

text \<open>
  A property on the shape track. \<open>Dims\<close> is a Python tuple of axis extents (the shape of an
  array); \<open>TupleShape\<close>, \<open>ListShape\<close> and \<open>ClassShape\<close> are the three classes of the module
  (\<open>ClassShape\<close> wraps a dict, whose equality ignores insertion order); \<open>InferrerShape\<close>
  is an inferrer, which is what the track holds for a function. Python's \<^verbatim>\<open>==\<close> on these
  objects is structural (\<^verbatim>\<open>__eq__\<close> compares the class and then the payload), that is,
  equality of this datatype.
\<close>

datatype shape =
    NOSHAPE
  | Dims "dim list"
  | TupleShape "shape list"
  | ListShape shape
  | ClassShape "(string, shape) fmap"
  | InferrerShape inferrer

text \<open>
  Host values as \<^verbatim>\<open>ShapeTrack.from_value\<close> tells them apart, in the order of its
  \<^verbatim>\<open>isinstance\<close> chain: a primitive (by name), a graph, a meta-graph, a tuple, a list, a
  dataclass type (by name), a dataclass instance (its fields in declaration order), and any
  other object, of which only the optional \<^verbatim>\<open>shape\<close> attribute is read.
\<close>

datatype host =
    HPrimitive string
  | HGraph graph
  | HMetaGraph graph
  | HTuple "host list"
  | HList "host list"
  | HDataclassType string
  | HDataclass "(string \<times> host) list"
  | HOther "shape option"

section \<open>Python helpers\<close>

text \<open>A comprehension over fallible items: the first exception ends it.\<close>

fun collect :: "(error + 'a) list \<Rightarrow> error + 'a list" where
  "collect [] = Inr []"
| "collect (r # rs) =
     (case r of
        Inl e \<Rightarrow> Inl e
      | Inr x \<Rightarrow> (case collect rs of Inl e \<Rightarrow> Inl e | Inr xs \<Rightarrow> Inr (x # xs)))"

text \<open>\<^verbatim>\<open>dict(pairs)\<close>: a later pair overwrites an earlier one with the same key.\<close>

definition dict_of :: "(string \<times> shape) list \<Rightarrow> (string, shape) fmap" where
  "dict_of kvs = foldl (\<lambda>m kv. fmupd (fst kv) (snd kv) m) fmempty kvs"

text \<open>\<^verbatim>\<open>isinstance(s, tuple)\<close> and the items of a tuple.\<close>

fun isinstance_tuple :: "shape \<Rightarrow> bool" where
  "isinstance_tuple (Dims ds) = True"
| "isinstance_tuple s = False"

fun items :: "shape \<Rightarrow> dim list" where
  "items (Dims ds) = ds"
| "items s = []"

section \<open>The shape of a list's elements\<close>

text \<open>
  \<^verbatim>\<open>find_matching_shape(shps)\<close>. \<^verbatim>\<open>shps[0]\<close> raises \<open>IndexError\<close> on an empty list. The final
  loop overwrites \<^verbatim>\<open>shp[i]\<close> only after reading it, so it is a map over the enumerated axes
  of the first shape; \<open>items\<close> is applied to tuples only, after both \<^verbatim>\<open>isinstance\<close> tests.
\<close>

definition find_matching_shape :: "shape list \<Rightarrow> error + shape" where
  "find_matching_shape shps0 =
     (case shps0 of
        [] \<Rightarrow> Inl IndexError
      | shp # shps \<Rightarrow>
          if list_all (\<lambda>s. shp = s) shps then Inr shp
          else if \<not> isinstance_tuple shp \<or> list_ex (\<lambda>s. \<not> isinstance_tuple s) shps
            then Inl InferenceError
          else if \<not> list_all (\<lambda>s. length (items shp) = length (items s)) shps
            then Inl InferenceError
          else Inr (Dims (map (\<lambda>(i, shp_i).
                                 if list_ex (\<lambda>s. items s ! i \<noteq> shp_i) shps
                                 then ANYTHING else shp_i)
                              (enumerate 0 (items shp)))))"

section \<open>The shape of a constant\<close>

text \<open>
  \<^verbatim>\<open>ShapeTrack.from_value(v, context)\<close>; \<open>constructors\<close> lists the primitives that have a
  registered rule (the keys of \<^verbatim>\<open>self.constructors\<close>). A dataclass type looks up the rule
  of \<^verbatim>\<open>make_record\<close> without testing for the key, which is a \<open>KeyError\<close> when it is absent.
\<close>

fun from_value :: "string list \<Rightarrow> host \<Rightarrow> ctx \<Rightarrow> error + shape" where
  "from_value constructors (HPrimitive v) ctxt =
     (if v \<in> set constructors then Inr (InferrerShape (RuleInferrer v))
      else Inr (InferrerShape ScalarShapeInferrer))"
| "from_value constructors (HGraph v) ctxt = Inr (InferrerShape (GraphInferrer v ctxt))"
| "from_value constructors (HMetaGraph v) ctxt = Inr (InferrerShape (MetaGraphInferrer v))"
| "from_value constructors (HTuple v) ctxt =
     (case collect (map (\<lambda>e. from_value constructors e ctxt) v) of
        Inl err \<Rightarrow> Inl err
      | Inr shs \<Rightarrow> Inr (TupleShape shs))"
| "from_value constructors (HList v) ctxt =
     (case collect (map (\<lambda>e. from_value constructors e ctxt) v) of
        Inl err \<Rightarrow> Inl err
      | Inr shps \<Rightarrow>
          if length shps = 0 then Inr (ListShape NOSHAPE)
          else (case find_matching_shape shps of
                  Inl err \<Rightarrow> Inl err
                | Inr s \<Rightarrow> Inr (ListShape s)))"
| "from_value constructors (HDataclassType v) ctxt =
     (if ''make_record'' \<in> set constructors
      then Inr (InferrerShape
                  (PartialInferrer (RuleInferrer ''make_record'') [VRef (VType (ClassT v)) TypeType]))
      else Inl KeyError)"
| "from_value constructors (HDataclass fields) ctxt =
     (case collect (map (\<lambda>f. from_value constructors (snd f) ctxt) fields) of
        Inl err \<Rightarrow> Inl err
      | Inr shs \<Rightarrow> Inr (ClassShape (dict_of (zip (map fst fields) shs))))"
| "from_value constructors (HOther sh) ctxt =
     (case sh of None \<Rightarrow> Inr NOSHAPE | Some s \<Rightarrow> Inr s)"

section \<open>References and the Python operations of the rules\<close>

text \<open>
  A reference, as a rule sees it: what awaiting \<^verbatim>\<open>ref['shape']\<close>, \<^verbatim>\<open>ref['value']\<close> and
  \<^verbatim>\<open>ref['type']\<close> gives, each either the property or the exception that inferring it
  raised. The engine memoises a property, so awaiting it twice gives the same answer.
\<close>

record ref =
  ref_shape :: "error + shape"
  ref_value :: "error + pyvalue"
  ref_type :: "error + mtype"

text \<open>
  \<^verbatim>\<open>len(s)\<close>: a tuple has a length and \<open>TupleShape\<close> defines \<^verbatim>\<open>__len__\<close>; the other shape
  objects have none.
\<close>

fun py_len :: "shape \<Rightarrow> error + nat" where
  "py_len (Dims ds) = Inr (length ds)"
| "py_len (TupleShape shs) = Inr (length shs)"
| "py_len s = Inl TypeError"

text \<open>
  \<^verbatim>\<open>t[k]\<close> on a tuple \<open>t\<close>: an integer below zero counts from the end, an integer out of
  range is an \<open>IndexError\<close>, a boolean is the integer 0 or 1, and anything else (the
  sentinel \<^verbatim>\<open>ANYTHING\<close> too, which defines no \<^verbatim>\<open>__index__\<close>) is a \<open>TypeError\<close>.
\<close>

definition tuple_at :: "'a list \<Rightarrow> int \<Rightarrow> error + 'a" where
  "tuple_at t k =
     (if 0 \<le> k \<and> k < int (length t) then Inr (t ! nat k)
      else if k < 0 \<and> 0 \<le> int (length t) + k then Inr (t ! nat (int (length t) + k))
      else Inl IndexError)"

fun tuple_getitem :: "'a list \<Rightarrow> pyvalue \<Rightarrow> error + 'a" where
  "tuple_getitem t (VInt k) = tuple_at t k"
| "tuple_getitem t (VBool b) = tuple_at t (if b then 1 else 0)"
| "tuple_getitem t v = Inl TypeError"

text \<open>\<^verbatim>\<open>prod(iterable)\<close>, a left fold of \<^verbatim>\<open>operator.mul\<close> from 1; the sentinel cannot be multiplied.\<close>

fun prod_from :: "int \<Rightarrow> dim list \<Rightarrow> error + int" where
  "prod_from acc [] = Inr acc"
| "prod_from acc (Dim n # ds) = prod_from (acc * n) ds"
| "prod_from acc (ANYTHING # ds) = Inl TypeError"

definition prod :: "dim list \<Rightarrow> error + int" where
  "prod ds = prod_from 1 ds"

text \<open>\<^verbatim>\<open>zip(*xss)\<close>: the columns of the rows, as many as the shortest row has; none without rows.\<close>

function zip_star :: "'a list list \<Rightarrow> 'a list list" where
  "zip_star [] = []"
| "zip_star (xs # xss) =
     (if list_ex (\<lambda>r. r = []) (xs # xss) then []
      else map hd (xs # xss) # zip_star (map tl (xs # xss)))"
  by pat_completeness auto
termination
  by (relation "measure (\<lambda>xss. length (hd xss))") (auto simp: neq_Nil_conv)

section \<open>Primitive shape rules\<close>

text \<open>
  What \<^verbatim>\<open>seq_sh.shape[idx_v]\<close> can be: a shape, when \<^verbatim>\<open>seq_sh\<close> is a \<open>TupleShape\<close>, or one
  axis, when it is a \<open>ListShape\<close> around a dimension sequence.
\<close>

datatype item = ShapeItem shape | DimItem dim

text \<open>
  \<^verbatim>\<open>infer_shape_tuple_getitem(track, seq, idx)\<close>. The attribute \<^verbatim>\<open>shape\<close> exists on the three
  shape classes only. On a \<open>ClassShape\<close> it is a dict keyed by attribute names, in which
  none of the constants of \<open>pyvalue\<close> is a key; on a \<open>ListShape\<close> it is the element shape,
  which can be indexed only when it is a tuple.
\<close>

definition infer_shape_tuple_getitem :: "ref \<Rightarrow> ref \<Rightarrow> error + item" where
  "infer_shape_tuple_getitem seq idx =
     (case ref_shape seq of
        Inl err \<Rightarrow> Inl err
      | Inr seq_sh \<Rightarrow>
          (case ref_value idx of
             Inl err \<Rightarrow> Inl err
           | Inr idx_v \<Rightarrow>
               (case seq_sh of
                  TupleShape shs \<Rightarrow> map_sum id ShapeItem (tuple_getitem shs idx_v)
                | ListShape (Dims ds) \<Rightarrow> map_sum id DimItem (tuple_getitem ds idx_v)
                | ListShape _ \<Rightarrow> Inl TypeError
                | ClassShape m \<Rightarrow> Inl KeyError
                | _ \<Rightarrow> Inl AttributeError)))"

text \<open>
  Calling a shape-track property with no argument and awaiting the result: only an inferrer
  can be called. What the call returns is the engine's business (\<^verbatim>\<open>myia.infer\<close>), so it is
  the parameter \<open>invoke\<close>.
\<close>

fun call :: "(inferrer \<Rightarrow> error + shape) \<Rightarrow> shape \<Rightarrow> error + shape" where
  "call invoke (InferrerShape f) = invoke f"
| "call invoke s = Inl TypeError"

fun callable :: "shape \<Rightarrow> bool" where
  "callable (InferrerShape f) = True"
| "callable s = False"

text \<open>
  \<^verbatim>\<open>infer_shape_if(track, cond, tb, fb)\<close>. The branches of \<^verbatim>\<open>if\<close> are functions: the rule first
  awaits the inferrer of each, then the condition, and calls the inferrer of the branch it
  visits. \<^verbatim>\<open>track.assert_same\<close> belongs to the engine and is the parameter \<open>assert_same\<close>,
  applied to the outcomes of the two computations it is given; the two calls that build
  these computations need both properties to be callable.
\<close>

definition infer_shape_if ::
  "((error + shape) \<Rightarrow> (error + shape) \<Rightarrow> error + shape) \<Rightarrow> (inferrer \<Rightarrow> error + shape) \<Rightarrow>
   ref \<Rightarrow> ref \<Rightarrow> ref \<Rightarrow> error + shape" where
  "infer_shape_if assert_same invoke cond tb fb =
     (case ref_shape tb of
        Inl err \<Rightarrow> Inl err
      | Inr tb_inf \<Rightarrow>
          (case ref_shape fb of
             Inl err \<Rightarrow> Inl err
           | Inr fb_inf \<Rightarrow>
               (case ref_value cond of
                  Inl err \<Rightarrow> Inl err
                | Inr v \<Rightarrow>
                    if v = VBool True then call invoke tb_inf
                    else if v = VBool False then call invoke fb_inf
                    else if v = VANYTHING then
                      (if callable tb_inf \<and> callable fb_inf
                       then assert_same (call invoke tb_inf) (call invoke fb_inf)
                       else Inl TypeError)
                    else Inl AssertionError)))"

text \<open>
  \<^verbatim>\<open>infer_shape_switch(track, cond, tb, fb)\<close>: the branches are values, and the shape of a
  branch is awaited only in the arm that visits it.
\<close>

definition infer_shape_switch ::
  "((error + shape) \<Rightarrow> (error + shape) \<Rightarrow> error + shape) \<Rightarrow> ref \<Rightarrow> ref \<Rightarrow> ref \<Rightarrow> error + shape" where
  "infer_shape_switch assert_same cond tb fb =
     (case ref_value cond of
        Inl err \<Rightarrow> Inl err
      | Inr v \<Rightarrow>
          if v = VBool True then ref_shape tb
          else if v = VBool False then ref_shape fb
          else if v = VANYTHING then assert_same (ref_shape tb) (ref_shape fb)
          else Inl AssertionError)"

text \<open>
  The test \<^verbatim>\<open>any(len(s) != len(shape0) for s in rest)\<close> of \<^verbatim>\<open>array_map\<close>: it takes both
  lengths for each further shape in turn and stops at the first difference.
\<close>

fun differing_len :: "shape \<Rightarrow> shape list \<Rightarrow> error + bool" where
  "differing_len shape0 [] = Inr False"
| "differing_len shape0 (s # rest) =
     (case py_len s of
        Inl err \<Rightarrow> Inl err
      | Inr n \<Rightarrow>
          (case py_len shape0 of
             Inl err \<Rightarrow> Inl err
           | Inr n0 \<Rightarrow> if n \<noteq> n0 then Inr True else differing_len shape0 rest))"

text \<open>
  One round of the loop of \<^verbatim>\<open>array_map\<close>, on the entries of one axis. The Python set is a
  list without duplicates: \<^verbatim>\<open>set(entries)\<close>, \<^verbatim>\<open>add\<close>, \<^verbatim>\<open>remove\<close>, and the unpacking
  \<^verbatim>\<open>entry, = entries\<close> of a set of one element.
\<close>

definition axis_entry :: "dim list \<Rightarrow> error + dim" where
  "axis_entry column =
     (let entries = List.insert ANYTHING (remdups column) in
      if length entries = 1 then Inr ANYTHING
      else if length entries = 2 then
        (case removeAll ANYTHING entries of [entry] \<Rightarrow> Inr entry | _ \<Rightarrow> Inl ValueError)
      else Inl MyiaShapeError)"

text \<open>
  \<^verbatim>\<open>infer_shape_array_map(track, fn, *arrays)\<close>. The unpacking \<^verbatim>\<open>shape0, *rest = shapes\<close> needs
  one array at least, and \<^verbatim>\<open>zip(*shapes)\<close> needs every shape to be iterable, which only a
  tuple is.
\<close>

definition infer_shape_array_map :: "ref \<Rightarrow> ref list \<Rightarrow> error + shape" where
  "infer_shape_array_map fn arrays =
     (case collect (map ref_shape arrays) of
        Inl err \<Rightarrow> Inl err
      | Inr shapes \<Rightarrow>
          (case shapes of
             [] \<Rightarrow> Inl ValueError
           | shape0 # rest \<Rightarrow>
               (case differing_len shape0 rest of
                  Inl err \<Rightarrow> Inl err
                | Inr True \<Rightarrow> Inl MyiaShapeError
                | Inr False \<Rightarrow>
                    if list_all isinstance_tuple shapes then
                      (case collect (map axis_entry (zip_star (map items shapes))) of
                         Inl err \<Rightarrow> Inl err
                       | Inr rshape \<Rightarrow> Inr (Dims rshape))
                    else Inl TypeError)))"

text \<open>\<^verbatim>\<open>len(shp_v)\<close> on a value: only a tuple has a length.\<close>

fun value_len :: "pyvalue \<Rightarrow> error + nat" where
  "value_len (VTuple t) = Inr (length t)"
| "value_len v = Inl TypeError"

text \<open>
  \<^verbatim>\<open>infer_shape_array_reduce(track, fn, ary, shp)\<close>. The chained comparison
  \<^verbatim>\<open>1 != s1 != ANYTHING\<close> is \<^verbatim>\<open>1 != s1 and s1 != ANYTHING\<close>. \<^verbatim>\<open>delta < 0\<close> is tested first, so the
  slice \<^verbatim>\<open>shp_i[delta:]\<close> is taken with \<^verbatim>\<open>delta >= 0\<close> only; a \<open>TupleShape\<close> has a length
  but cannot be sliced.
\<close>

definition infer_shape_array_reduce :: "ref \<Rightarrow> ref \<Rightarrow> ref \<Rightarrow> error + shape" where
  "infer_shape_array_reduce fn ary shp =
     (case ref_shape ary of
        Inl err \<Rightarrow> Inl err
      | Inr shp_i \<Rightarrow>
          (case ref_value shp of
             Inl err \<Rightarrow> Inl err
           | Inr shp_v \<Rightarrow>
               if shp_v = VANYTHING then Inl AssertionError
               else
                 (case py_len shp_i of
                    Inl err \<Rightarrow> Inl err
                  | Inr len_i \<Rightarrow>
                      (case value_len shp_v of
                         Inl err \<Rightarrow> Inl err
                       | Inr len_v \<Rightarrow>
                           (let delta = int len_i - int len_v in
                            if delta < 0 then Inl MyiaShapeError
                            else
                              (case (shp_i, shp_v) of
                                 (Dims si, VTuple sv) \<Rightarrow>
                                   if list_ex (\<lambda>(s1, s2). Dim 1 \<noteq> s1 \<and> s1 \<noteq> ANYTHING \<and>
                                                          Dim 1 \<noteq> s2 \<and> s2 \<noteq> ANYTHING \<and> s1 \<noteq> s2)
                                        (zip (drop (nat delta) si) sv)
                                   then Inl MyiaShapeError
                                   else Inr (Dims sv)
                               | _ \<Rightarrow> Inl TypeError))))))"

text \<open>
  The target of \<^verbatim>\<open>reshape\<close>: the value of the \<^verbatim>\<open>shape\<close> argument, or, when that is
  \<^verbatim>\<open>ANYTHING\<close>, as many wildcards as its tuple type has elements (only a tuple type has
  the attribute \<^verbatim>\<open>elements\<close>).
\<close>

definition target_shape :: "ref \<Rightarrow> error + pyvalue" where
  "target_shape shape =
     (case ref_value shape of
        Inl err \<Rightarrow> Inl err
      | Inr shp \<Rightarrow>
          if shp = VANYTHING then
            (case ref_type shape of
               Inl err \<Rightarrow> Inl err
             | Inr shp_t \<Rightarrow>
                 (case shp_t of
                    TupleT elements \<Rightarrow> Inr (VTuple (replicate (length elements) ANYTHING))
                  | _ \<Rightarrow> Inl AttributeError))
          else Inr shp)"

text \<open>
  \<^verbatim>\<open>infer_shape_reshape(track, v, shape)\<close>. \<^verbatim>\<open>and\<close> evaluates from the left: the source shape
  is iterated only when the target has no wildcard, and the products are taken only when
  neither has one.
\<close>

definition infer_shape_reshape :: "ref \<Rightarrow> ref \<Rightarrow> error + shape" where
  "infer_shape_reshape v shape =
     (case target_shape shape of
        Inl err \<Rightarrow> Inl err
      | Inr shp_v \<Rightarrow>
          (case ref_shape v of
             Inl err \<Rightarrow> Inl err
           | Inr v_shp \<Rightarrow>
               (case shp_v of
                  VTuple shp \<Rightarrow>
                    if list_all (\<lambda>s. s \<noteq> ANYTHING) shp then
                      (case v_shp of
                         Dims vs \<Rightarrow>
                           if list_all (\<lambda>s. s \<noteq> ANYTHING) vs then
                             (case prod shp of
                                Inl err \<Rightarrow> Inl err
                              | Inr p \<Rightarrow>
                                  (case prod vs of
                                     Inl err \<Rightarrow> Inl err
                                   | Inr q \<Rightarrow>
                                       if p \<noteq> q then Inl MyiaShapeError else Inr (Dims shp)))
                           else Inr (Dims shp)
                       | _ \<Rightarrow> Inl TypeError)
                    else Inr (Dims shp)
                | _ \<Rightarrow> Inl TypeError)))"

text \<open>
  \<^verbatim>\<open>infer_shape_dot(track, a, b)\<close>. \<^verbatim>\<open>or\<close> evaluates from the left, so the length of the
  second shape is taken only when the first has length 2; indexing needs tuples.
\<close>

definition infer_shape_dot :: "ref \<Rightarrow> ref \<Rightarrow> error + shape" where
  "infer_shape_dot a b =
     (case ref_shape a of
        Inl err \<Rightarrow> Inl err
      | Inr a_shp \<Rightarrow>
          (case ref_shape b of
             Inl err \<Rightarrow> Inl err
           | Inr b_shp \<Rightarrow>
               (case py_len a_shp of
                  Inl err \<Rightarrow> Inl err
                | Inr len_a \<Rightarrow>
                    if len_a \<noteq> 2 then Inl MyiaShapeError
                    else
                      (case py_len b_shp of
                         Inl err \<Rightarrow> Inl err
                       | Inr len_b \<Rightarrow>
                           if len_b \<noteq> 2 then Inl MyiaShapeError
                           else
                             (case (a_shp, b_shp) of
                                (Dims da, Dims db) \<Rightarrow>
                                  if da ! 1 \<noteq> db ! 0 \<and> da ! 1 \<noteq> ANYTHING \<and> db ! 0 \<noteq> ANYTHING
                                  then Inl MyiaShapeError
                                  else Inr (Dims [da ! 0, db ! 1])
                              | _ \<Rightarrow> Inl TypeError)))))"

section \<open>Properties of \<open>find_matching_shape\<close> and \<open>from_value\<close>\<close>

lemma isinstance_tuple_iff: "isinstance_tuple s \<longleftrightarrow> (\<exists>ds. s = Dims ds)"
  by (cases s) simp_all

lemma all_tuples_iff: "(\<forall>s\<in>set shps. isinstance_tuple s) \<longleftrightarrow> (\<exists>ds. shps = map Dims ds)"
proof
  assume a: "\<forall>s\<in>set shps. isinstance_tuple s"
  have "shps = map Dims (map items shps)"
    using a by (induction shps) (auto simp: isinstance_tuple_iff)
  then show "\<exists>ds. shps = map Dims ds" ..
next
  assume "\<exists>ds. shps = map Dims ds"
  then show "\<forall>s\<in>set shps. isinstance_tuple s" by auto
qed

lemma find_matching_shape_equal:
  "\<forall>s\<in>set shps. s = shp \<Longrightarrow> find_matching_shape (shp # shps) = Inr shp"
  by (auto simp: find_matching_shape_def list_all_iff)

lemma find_matching_shape_tuples:
  assumes ne: "\<not> (\<forall>s\<in>set (map Dims ds). s = Dims d0)"
    and len: "\<forall>d\<in>set ds. length d = length d0"
  shows "find_matching_shape (Dims d0 # map Dims ds) =
           Inr (Dims (map (\<lambda>i. if \<forall>d\<in>set ds. d ! i = d0 ! i then d0 ! i else ANYTHING)
                          [0..<length d0]))"
proof -
  have "map (\<lambda>(i, shp_i). if list_ex (\<lambda>s. items s ! i \<noteq> shp_i) (map Dims ds) then ANYTHING else shp_i)
            (enumerate 0 d0)
        = map (\<lambda>i. if \<forall>d\<in>set ds. d ! i = d0 ! i then d0 ! i else ANYTHING) [0..<length d0]"
    by (rule nth_equalityI) (auto simp: list_ex_iff nth_enumerate_eq)
  with ne len show ?thesis
    by (auto simp: find_matching_shape_def list_all_iff list_ex_iff)
qed

lemma find_matching_shape_mismatch:
  assumes ne: "\<not> (\<forall>s\<in>set shps. s = shp)"
    and no: "\<not> (\<exists>d0 ds. shp = Dims d0 \<and> shps = map Dims ds \<and> (\<forall>d\<in>set ds. length d = length d0))"
  shows "find_matching_shape (shp # shps) = Inl InferenceError"
proof (cases "isinstance_tuple shp \<and> (\<forall>s\<in>set shps. isinstance_tuple s)")
  case False
  with ne show ?thesis
    by (auto simp: find_matching_shape_def list_all_iff list_ex_iff)
next
  case True
  then obtain d0 ds where s: "shp = Dims d0" "shps = map Dims ds"
    using isinstance_tuple_iff all_tuples_iff by blast
  with no have "\<not> (\<forall>d\<in>set ds. length d = length d0)" by blast
  with ne s show ?thesis
    by (auto simp: find_matching_shape_def list_all_iff list_ex_iff)
qed

text \<open>
  Claim C3. On a non-empty list, \<open>find_matching_shape\<close> returns the first shape when every
  element equals it. Otherwise, when all elements are dimension sequences of one length, it
  returns a dimension sequence of that length which keeps the first element's value at each
  axis where all elements agree and holds \<open>ANYTHING\<close> at each axis where some element
  differs. Otherwise (an element that is not a dimension sequence, or two lengths) it raises
  \<open>InferenceError\<close>.
\<close>

theorem find_matching_shape_cases:
  "((\<forall>s\<in>set shps. s = shp) \<longrightarrow> find_matching_shape (shp # shps) = Inr shp) \<and>
   (\<not> (\<forall>s\<in>set shps. s = shp) \<and> shp = Dims d0 \<and> shps = map Dims ds \<and>
      (\<forall>d\<in>set ds. length d = length d0) \<longrightarrow>
      (\<exists>r. find_matching_shape (shp # shps) = Inr (Dims r) \<and> length r = length d0 \<and>
           (\<forall>i<length d0. r ! i = (if \<forall>d\<in>set ds. d ! i = d0 ! i then d0 ! i else ANYTHING)))) \<and>
   (\<not> (\<forall>s\<in>set shps. s = shp) \<and>
      \<not> (\<exists>d0 ds. shp = Dims d0 \<and> shps = map Dims ds \<and> (\<forall>d\<in>set ds. length d = length d0)) \<longrightarrow>
      find_matching_shape (shp # shps) = Inl InferenceError)"
proof (intro conjI impI)
  assume "\<forall>s\<in>set shps. s = shp"
  then show "find_matching_shape (shp # shps) = Inr shp"
    by (rule find_matching_shape_equal)
next
  assume a: "\<not> (\<forall>s\<in>set shps. s = shp) \<and> shp = Dims d0 \<and> shps = map Dims ds \<and>
      (\<forall>d\<in>set ds. length d = length d0)"
  let ?r = "map (\<lambda>i. if \<forall>d\<in>set ds. d ! i = d0 ! i then d0 ! i else ANYTHING) [0..<length d0]"
  from a have ne: "\<not> (\<forall>s\<in>set (map Dims ds). s = Dims d0)" by blast
  from a have len: "\<forall>d\<in>set ds. length d = length d0" by simp
  from a have "find_matching_shape (shp # shps) = Inr (Dims ?r)"
    using find_matching_shape_tuples [OF ne len] by simp
  moreover have "length ?r = length d0" by simp
  moreover have "\<forall>i<length d0. ?r ! i = (if \<forall>d\<in>set ds. d ! i = d0 ! i then d0 ! i else ANYTHING)"
    by simp
  ultimately show "\<exists>r. find_matching_shape (shp # shps) = Inr (Dims r) \<and> length r = length d0 \<and>
           (\<forall>i<length d0. r ! i = (if \<forall>d\<in>set ds. d ! i = d0 ! i then d0 ! i else ANYTHING))"
    by blast
next
  assume "\<not> (\<forall>s\<in>set shps. s = shp) \<and>
      \<not> (\<exists>d0 ds. shp = Dims d0 \<and> shps = map Dims ds \<and> (\<forall>d\<in>set ds. length d = length d0))"
  then show "find_matching_shape (shp # shps) = Inl InferenceError"
    using find_matching_shape_mismatch by blast
qed

text \<open>The three cases at concrete lists, the last one for both ways of failing.\<close>

theorem find_matching_shape_cases_witness:
  "find_matching_shape [TupleShape [NOSHAPE], TupleShape [NOSHAPE]] = Inr (TupleShape [NOSHAPE]) \<and>
   (\<exists>r. find_matching_shape [Dims [Dim 2, Dim 3, ANYTHING], Dims [Dim 2, Dim 5, ANYTHING]] = Inr (Dims r) \<and>
        r ! 0 = Dim 2 \<and> r ! 1 = ANYTHING \<and> r ! 2 = ANYTHING) \<and>
   find_matching_shape [Dims [Dim 2], NOSHAPE] = Inl InferenceError \<and>
   find_matching_shape [Dims [Dim 2], Dims [Dim 2, Dim 3]] = Inl InferenceError"
proof -
  have 1: "find_matching_shape [TupleShape [NOSHAPE], TupleShape [NOSHAPE]] = Inr (TupleShape [NOSHAPE])"
    using find_matching_shape_cases [of "[TupleShape [NOSHAPE]]" "TupleShape [NOSHAPE]" "[]" "[]"]
    by simp
  have 2: "\<exists>r. find_matching_shape [Dims [Dim 2, Dim 3, ANYTHING], Dims [Dim 2, Dim 5, ANYTHING]] = Inr (Dims r) \<and>
        r ! 0 = Dim 2 \<and> r ! 1 = ANYTHING \<and> r ! 2 = ANYTHING"
    using find_matching_shape_cases [of "[Dims [Dim 2, Dim 5, ANYTHING]]" "Dims [Dim 2, Dim 3, ANYTHING]"
        "[Dim 2, Dim 3, ANYTHING]" "[[Dim 2, Dim 5, ANYTHING]]"]
    by (auto simp: All_less_Suc2 eval_nat_numeral)
  have 3: "find_matching_shape [Dims [Dim 2], NOSHAPE] = Inl InferenceError"
    using find_matching_shape_cases [of "[NOSHAPE]" "Dims [Dim 2]" "[]" "[]"]
    by (auto simp: Cons_eq_map_conv)
  have 4: "find_matching_shape [Dims [Dim 2], Dims [Dim 2, Dim 3]] = Inl InferenceError"
    using find_matching_shape_cases [of "[Dims [Dim 2, Dim 3]]" "Dims [Dim 2]" "[]" "[]"]
    by (auto simp: Cons_eq_map_conv)
  from 1 2 3 4 show ?thesis by blast
qed

text \<open>
  Claim C2, as the specification states it: merging \<open>(4, ANYTHING)\<close> with \<open>(4, 7)\<close> yields
  \<open>(4, 7)\<close>, and merging \<open>(4, 7)\<close> with \<open>(4, 9)\<close> fails. \<open>find_matching_shape\<close> does
  neither: the first result is not \<open>(4, 7)\<close> and the second call is not an error.
\<close>

theorem find_matching_shape_wildcard_counterexample:
  "find_matching_shape [Dims [Dim 4, ANYTHING], Dims [Dim 4, Dim 7]] \<noteq> Inr (Dims [Dim 4, Dim 7]) \<and>
   \<not> isl (find_matching_shape [Dims [Dim 4, Dim 7], Dims [Dim 4, Dim 9]])"
  by (simp add: find_matching_shape_def enumerate_eq_zip)

text \<open>
  Claim C2, amended. \<open>find_matching_shape\<close> generalises: on \<open>(4, ANYTHING)\<close> and \<open>(4, 7)\<close>
  the second axis differs between the elements and becomes \<open>ANYTHING\<close>, and on \<open>(4, 7)\<close> and
  \<open>(4, 9)\<close> the two concrete values are likewise replaced by \<open>ANYTHING\<close>; both calls succeed
  with \<open>(4, ANYTHING)\<close>.
\<close>

theorem find_matching_shape_wildcard:
  "find_matching_shape [Dims [Dim 4, ANYTHING], Dims [Dim 4, Dim 7]] = Inr (Dims [Dim 4, ANYTHING]) \<and>
   find_matching_shape [Dims [Dim 4, Dim 7], Dims [Dim 4, Dim 9]] = Inr (Dims [Dim 4, ANYTHING])"
  by (simp add: find_matching_shape_def enumerate_eq_zip)

theorem find_matching_shape_wildcard_witness:
  "find_matching_shape [Dims [Dim 4, Dim 7], Dims [Dim 4, Dim 9]] = Inr (Dims [Dim 4, ANYTHING])"
  using find_matching_shape_wildcard by simp

text \<open>
  Claim C4. For every shape \<open>s\<close>, of any kind, \<open>find_matching_shape [s, s, s]\<close> succeeds and
  returns \<open>s\<close>.
\<close>

theorem find_matching_shape_idempotent:
  "find_matching_shape [s, s, s] = Inr s"
  by (simp add: find_matching_shape_def)

text \<open>Each kind of shape once, a dimension sequence with a wildcard among them.\<close>

theorem find_matching_shape_idempotent_witness:
  "find_matching_shape [NOSHAPE, NOSHAPE, NOSHAPE] = Inr NOSHAPE \<and>
   find_matching_shape [Dims [Dim 4, ANYTHING], Dims [Dim 4, ANYTHING], Dims [Dim 4, ANYTHING]]
     = Inr (Dims [Dim 4, ANYTHING]) \<and>
   find_matching_shape [TupleShape [NOSHAPE, Dims []], TupleShape [NOSHAPE, Dims []],
                        TupleShape [NOSHAPE, Dims []]] = Inr (TupleShape [NOSHAPE, Dims []]) \<and>
   find_matching_shape [ListShape (Dims [Dim 2]), ListShape (Dims [Dim 2]), ListShape (Dims [Dim 2])]
     = Inr (ListShape (Dims [Dim 2])) \<and>
   find_matching_shape [ClassShape (dict_of [(''x'', NOSHAPE)]), ClassShape (dict_of [(''x'', NOSHAPE)]),
                        ClassShape (dict_of [(''x'', NOSHAPE)])]
     = Inr (ClassShape (dict_of [(''x'', NOSHAPE)]))"
  using find_matching_shape_idempotent [of NOSHAPE]
    find_matching_shape_idempotent [of "Dims [Dim 4, ANYTHING]"]
    find_matching_shape_idempotent [of "TupleShape [NOSHAPE, Dims []]"]
    find_matching_shape_idempotent [of "ListShape (Dims [Dim 2])"]
    find_matching_shape_idempotent [of "ClassShape (dict_of [(''x'', NOSHAPE)])"]
  by blast

text \<open>
  Claim C10. \<open>from_value\<close> of the empty list is \<open>ListShape NOSHAPE\<close>, whatever rules are
  registered and in any context: no element shape is merged, so no error can arise.
\<close>

theorem from_value_empty_list:
  "from_value constructors (HList []) ctxt = Inr (ListShape NOSHAPE)"
  by simp

theorem from_value_empty_list_witness:
  "from_value [''make_tuple'', ''dot''] (HList []) 0 = Inr (ListShape NOSHAPE)"
  using from_value_empty_list [of "[''make_tuple'', ''dot'']" 0] by simp

section \<open>Conditionals\<close>

text \<open>
  The rule of \<^verbatim>\<open>if\<close> awaits the inferrers of both branch functions before it looks at the
  condition, so a failure to obtain either of them is the rule's failure.
\<close>

lemma infer_shape_if_awaits_inferrers:
  "ref_shape tb = Inl err \<or> (\<exists>tb_inf. ref_shape tb = Inr tb_inf \<and> ref_shape fb = Inl err) \<Longrightarrow>
   infer_shape_if assert_same invoke cond tb fb = Inl err"
  by (auto simp: infer_shape_if_def)

text \<open>
  Claim C1, as the specification states it: with a constant true condition an error of the
  false branch never makes the inference fail, for \<^verbatim>\<open>if\<close> as for \<^verbatim>\<open>switch\<close>. For \<^verbatim>\<open>if\<close> this
  is false when the error arises in awaiting the false branch's shape property: the
  condition is true, the true branch's inferrer returns \<open>(4, 5)\<close>, and the rule fails with the
  false branch's \<open>MyiaShapeError\<close>.
\<close>

theorem conditional_elision_counterexample:
  "infer_shape_if (\<lambda>x y. Inl AssertionError)
     (\<lambda>f. if f = GraphInferrer 1 0 then Inr (Dims [Dim 4, Dim 5]) else Inl MyiaShapeError)
     \<lparr>ref_shape = Inr NOSHAPE, ref_value = Inr (VBool True), ref_type = Inr ScalarT\<rparr>
     \<lparr>ref_shape = Inr (InferrerShape (GraphInferrer 1 0)), ref_value = Inr VANYTHING,
      ref_type = Inr ScalarT\<rparr>
     \<lparr>ref_shape = Inl MyiaShapeError, ref_value = Inr VANYTHING, ref_type = Inr ScalarT\<rparr>
     = Inl MyiaShapeError"
  by (simp add: infer_shape_if_def)

text \<open>
  Claim C1, amended. \<^verbatim>\<open>switch\<close> is as claimed: with a constant true condition it returns the
  true branch's shape and never awaits the false branch's, so no error of the false branch
  can surface. \<^verbatim>\<open>if\<close> first awaits the shape property of both branches, which are functions;
  once both inferrers are obtained, a constant true condition makes it return what calling
  the true branch's inferrer returns, and the false branch's inferrer is never called, so
  an error that its call would raise cannot surface. Symmetrically for the constant false
  and the true branch.
\<close>

theorem conditional_elision:
  "(ref_value cond = Inr (VBool True) \<and> ref_shape tb = Inr tb_inf \<and> ref_shape fb = Inr fb_inf \<longrightarrow>
      infer_shape_if assert_same invoke cond tb fb = call invoke tb_inf) \<and>
   (ref_value cond = Inr (VBool False) \<and> ref_shape tb = Inr tb_inf \<and> ref_shape fb = Inr fb_inf \<longrightarrow>
      infer_shape_if assert_same invoke cond tb fb = call invoke fb_inf) \<and>
   (ref_value cond = Inr (VBool True) \<longrightarrow>
      infer_shape_switch assert_same cond tb fb = ref_shape tb) \<and>
   (ref_value cond = Inr (VBool False) \<longrightarrow>
      infer_shape_switch assert_same cond tb fb = ref_shape fb)"
  by (simp add: infer_shape_if_def infer_shape_switch_def)

text \<open>
  At concrete references: the untaken branch raises \<open>MyiaShapeError\<close> and the rule returns the
  taken branch's shape \<open>(4, 5)\<close>.
\<close>

theorem conditional_elision_witness:
  "infer_shape_if (\<lambda>x y. Inl MyiaShapeError)
     (\<lambda>f. if f = GraphInferrer 1 0 then Inr (Dims [Dim 4, Dim 5]) else Inl MyiaShapeError)
     \<lparr>ref_shape = Inr NOSHAPE, ref_value = Inr (VBool True), ref_type = Inr ScalarT\<rparr>
     \<lparr>ref_shape = Inr (InferrerShape (GraphInferrer 1 0)), ref_value = Inr VANYTHING,
      ref_type = Inr ScalarT\<rparr>
     \<lparr>ref_shape = Inr (InferrerShape (GraphInferrer 2 0)), ref_value = Inr VANYTHING,
      ref_type = Inr ScalarT\<rparr>
     = Inr (Dims [Dim 4, Dim 5]) \<and>
   infer_shape_if (\<lambda>x y. Inl MyiaShapeError)
     (\<lambda>f. if f = GraphInferrer 2 0 then Inr (Dims [Dim 4, Dim 5]) else Inl MyiaShapeError)
     \<lparr>ref_shape = Inr NOSHAPE, ref_value = Inr (VBool False), ref_type = Inr ScalarT\<rparr>
     \<lparr>ref_shape = Inr (InferrerShape (GraphInferrer 1 0)), ref_value = Inr VANYTHING,
      ref_type = Inr ScalarT\<rparr>
     \<lparr>ref_shape = Inr (InferrerShape (GraphInferrer 2 0)), ref_value = Inr VANYTHING,
      ref_type = Inr ScalarT\<rparr>
     = Inr (Dims [Dim 4, Dim 5]) \<and>
   infer_shape_switch (\<lambda>x y. Inl MyiaShapeError)
     \<lparr>ref_shape = Inr NOSHAPE, ref_value = Inr (VBool True), ref_type = Inr ScalarT\<rparr>
     \<lparr>ref_shape = Inr (Dims [Dim 4, Dim 5]), ref_value = Inr VANYTHING, ref_type = Inr ScalarT\<rparr>
     \<lparr>ref_shape = Inl MyiaShapeError, ref_value = Inr VANYTHING, ref_type = Inr ScalarT\<rparr>
     = Inr (Dims [Dim 4, Dim 5]) \<and>
   infer_shape_switch (\<lambda>x y. Inl MyiaShapeError)
     \<lparr>ref_shape = Inr NOSHAPE, ref_value = Inr (VBool False), ref_type = Inr ScalarT\<rparr>
     \<lparr>ref_shape = Inl MyiaShapeError, ref_value = Inr VANYTHING, ref_type = Inr ScalarT\<rparr>
     \<lparr>ref_shape = Inr (Dims [Dim 4, Dim 5]), ref_value = Inr VANYTHING, ref_type = Inr ScalarT\<rparr>
     = Inr (Dims [Dim 4, Dim 5])"
proof -
  let ?t = "\<lparr>ref_shape = Inr (InferrerShape (GraphInferrer 1 0)), ref_value = Inr VANYTHING,
      ref_type = Inr ScalarT\<rparr>"
  let ?f = "\<lparr>ref_shape = Inr (InferrerShape (GraphInferrer 2 0)), ref_value = Inr VANYTHING,
      ref_type = Inr ScalarT\<rparr>"
  let ?ok = "\<lparr>ref_shape = Inr (Dims [Dim 4, Dim 5]), ref_value = Inr VANYTHING, ref_type = Inr ScalarT\<rparr>"
  let ?bad = "\<lparr>ref_shape = Inl MyiaShapeError, ref_value = Inr VANYTHING, ref_type = Inr ScalarT\<rparr>"
  let ?T = "\<lparr>ref_shape = Inr NOSHAPE, ref_value = Inr (VBool True), ref_type = Inr ScalarT\<rparr>"
  let ?F = "\<lparr>ref_shape = Inr NOSHAPE, ref_value = Inr (VBool False), ref_type = Inr ScalarT\<rparr>"
  have 1: "infer_shape_if (\<lambda>x y. Inl MyiaShapeError)
     (\<lambda>f. if f = GraphInferrer 1 0 then Inr (Dims [Dim 4, Dim 5]) else Inl MyiaShapeError) ?T ?t ?f
     = Inr (Dims [Dim 4, Dim 5])"
    using conditional_elision [of ?T ?t "InferrerShape (GraphInferrer 1 0)" ?f
        "InferrerShape (GraphInferrer 2 0)" "\<lambda>x y. Inl MyiaShapeError"
        "\<lambda>f. if f = GraphInferrer 1 0 then Inr (Dims [Dim 4, Dim 5]) else Inl MyiaShapeError"]
    by simp
  have 2: "infer_shape_if (\<lambda>x y. Inl MyiaShapeError)
     (\<lambda>f. if f = GraphInferrer 2 0 then Inr (Dims [Dim 4, Dim 5]) else Inl MyiaShapeError) ?F ?t ?f
     = Inr (Dims [Dim 4, Dim 5])"
    using conditional_elision [of ?F ?t "InferrerShape (GraphInferrer 1 0)" ?f
        "InferrerShape (GraphInferrer 2 0)" "\<lambda>x y. Inl MyiaShapeError"
        "\<lambda>f. if f = GraphInferrer 2 0 then Inr (Dims [Dim 4, Dim 5]) else Inl MyiaShapeError"]
    by simp
  have 3: "infer_shape_switch (\<lambda>x y. Inl MyiaShapeError) ?T ?ok ?bad = Inr (Dims [Dim 4, Dim 5])"
    using conditional_elision [of ?T ?ok NOSHAPE ?bad NOSHAPE "\<lambda>x y. Inl MyiaShapeError"
        "\<lambda>f. Inl MyiaShapeError"]
    by simp
  have 4: "infer_shape_switch (\<lambda>x y. Inl MyiaShapeError) ?F ?bad ?ok = Inr (Dims [Dim 4, Dim 5])"
    using conditional_elision [of ?F ?bad NOSHAPE ?ok NOSHAPE "\<lambda>x y. Inl MyiaShapeError"
        "\<lambda>f. Inl MyiaShapeError"]
    by simp
  from 1 2 3 4 show ?thesis by blast
qed

section \<open>\<open>array_reduce\<close>\<close>

lemma reduce_clash_iff:
  assumes "length sv \<le> length si"
  shows "list_ex (\<lambda>(s1, s2). Dim 1 \<noteq> s1 \<and> s1 \<noteq> ANYTHING \<and> Dim 1 \<noteq> s2 \<and> s2 \<noteq> ANYTHING \<and> s1 \<noteq> s2)
           (zip (drop (length si - length sv) si) sv)
         \<longleftrightarrow> (\<exists>k<length sv. si ! (length si - length sv + k) \<notin> {Dim 1, ANYTHING} \<and>
                               sv ! k \<notin> {Dim 1, ANYTHING} \<and>
                               si ! (length si - length sv + k) \<noteq> sv ! k)"
proof -
  have len: "length (zip (drop (length si - length sv) si) sv) = length sv"
    using assms by simp
  show ?thesis
    unfolding list_ex_length len
    using assms by (intro ex_cong1) auto
qed

text \<open>
  Claim C5. With the wildcard as target shape value, \<open>array_reduce\<close> always fails. With a
  source shape \<open>si\<close> and a known target \<open>sv\<close>, it fails exactly when
  \<open>delta = rank si - rank sv\<close> is negative or some target axis \<open>s2 = sv ! k\<close> and the source
  axis \<open>s1 = si ! (delta + k)\<close> facing it are both outside \<open>{1, ANYTHING}\<close> and differ;
  otherwise it returns the target shape.
\<close>

theorem array_reduce_cases:
  "(ref_value shp = Inr VANYTHING \<longrightarrow> isl (infer_shape_array_reduce fn ary shp)) \<and>
   (ref_shape ary = Inr (Dims si) \<and> ref_value shp = Inr (VTuple sv) \<longrightarrow>
      infer_shape_array_reduce fn ary shp =
        (if int (length si) - int (length sv) < 0 \<or>
            (\<exists>k<length sv. si ! (length si - length sv + k) \<notin> {Dim 1, ANYTHING} \<and>
                            sv ! k \<notin> {Dim 1, ANYTHING} \<and>
                            si ! (length si - length sv + k) \<noteq> sv ! k)
         then Inl MyiaShapeError else Inr (Dims sv)))"
proof (intro conjI impI)
  assume "ref_value shp = Inr VANYTHING"
  then show "isl (infer_shape_array_reduce fn ary shp)"
    by (simp add: infer_shape_array_reduce_def split: sum.splits)
next
  assume a: "ref_shape ary = Inr (Dims si) \<and> ref_value shp = Inr (VTuple sv)"
  show "infer_shape_array_reduce fn ary shp =
        (if int (length si) - int (length sv) < 0 \<or>
            (\<exists>k<length sv. si ! (length si - length sv + k) \<notin> {Dim 1, ANYTHING} \<and>
                            sv ! k \<notin> {Dim 1, ANYTHING} \<and>
                            si ! (length si - length sv + k) \<noteq> sv ! k)
         then Inl MyiaShapeError else Inr (Dims sv))"
  proof (cases "length sv \<le> length si")
    case False
    with a show ?thesis by (simp add: infer_shape_array_reduce_def)
  next
    case True
    then have n: "nat (int (length si) - int (length sv)) = length si - length sv" by simp
    from True have nn: "\<not> int (length si) - int (length sv) < 0" by simp
    show ?thesis
      using a nn reduce_clash_iff [OF True]
      by (simp add: infer_shape_array_reduce_def n Let_def)
  qed
qed

text \<open>
  A wildcard target; a source \<open>(5, 2, 3)\<close> reduced to \<open>(1, 3)\<close>; the same source against
  \<open>(4, 3)\<close>, where 2 meets 4; and a target of higher rank than the source.
\<close>

theorem array_reduce_cases_witness:
  "isl (infer_shape_array_reduce
          \<lparr>ref_shape = Inr NOSHAPE, ref_value = Inr VANYTHING, ref_type = Inr ScalarT\<rparr>
          \<lparr>ref_shape = Inr (Dims [Dim 5, Dim 2, Dim 3]), ref_value = Inr VANYTHING, ref_type = Inr ScalarT\<rparr>
          \<lparr>ref_shape = Inr NOSHAPE, ref_value = Inr VANYTHING, ref_type = Inr ScalarT\<rparr>) \<and>
   infer_shape_array_reduce
     \<lparr>ref_shape = Inr NOSHAPE, ref_value = Inr VANYTHING, ref_type = Inr ScalarT\<rparr>
     \<lparr>ref_shape = Inr (Dims [Dim 5, Dim 2, Dim 3]), ref_value = Inr VANYTHING, ref_type = Inr ScalarT\<rparr>
     \<lparr>ref_shape = Inr NOSHAPE, ref_value = Inr (VTuple [Dim 1, Dim 3]), ref_type = Inr ScalarT\<rparr>
     = Inr (Dims [Dim 1, Dim 3]) \<and>
   infer_shape_array_reduce
     \<lparr>ref_shape = Inr NOSHAPE, ref_value = Inr VANYTHING, ref_type = Inr ScalarT\<rparr>
     \<lparr>ref_shape = Inr (Dims [Dim 5, Dim 2, Dim 3]), ref_value = Inr VANYTHING, ref_type = Inr ScalarT\<rparr>
     \<lparr>ref_shape = Inr NOSHAPE, ref_value = Inr (VTuple [Dim 4, Dim 3]), ref_type = Inr ScalarT\<rparr>
     = Inl MyiaShapeError \<and>
   infer_shape_array_reduce
     \<lparr>ref_shape = Inr NOSHAPE, ref_value = Inr VANYTHING, ref_type = Inr ScalarT\<rparr>
     \<lparr>ref_shape = Inr (Dims [Dim 3]), ref_value = Inr VANYTHING, ref_type = Inr ScalarT\<rparr>
     \<lparr>ref_shape = Inr NOSHAPE, ref_value = Inr (VTuple [Dim 1, Dim 3]), ref_type = Inr ScalarT\<rparr>
     = Inl MyiaShapeError"
proof -
  let ?fn = "\<lparr>ref_shape = Inr NOSHAPE, ref_value = Inr VANYTHING, ref_type = Inr ScalarT\<rparr>"
  let ?ary = "\<lparr>ref_shape = Inr (Dims [Dim 5, Dim 2, Dim 3]), ref_value = Inr VANYTHING, ref_type = Inr ScalarT\<rparr>"
  let ?ary1 = "\<lparr>ref_shape = Inr (Dims [Dim 3]), ref_value = Inr VANYTHING, ref_type = Inr ScalarT\<rparr>"
  let ?any = "\<lparr>ref_shape = Inr NOSHAPE, ref_value = Inr VANYTHING, ref_type = Inr ScalarT\<rparr>"
  let ?t13 = "\<lparr>ref_shape = Inr NOSHAPE, ref_value = Inr (VTuple [Dim 1, Dim 3]), ref_type = Inr ScalarT\<rparr>"
  let ?t43 = "\<lparr>ref_shape = Inr NOSHAPE, ref_value = Inr (VTuple [Dim 4, Dim 3]), ref_type = Inr ScalarT\<rparr>"
  have 1: "isl (infer_shape_array_reduce ?fn ?ary ?any)"
    using array_reduce_cases [of ?any ?fn ?ary "[]" "[]"] by simp
  have 2: "infer_shape_array_reduce ?fn ?ary ?t13 = Inr (Dims [Dim 1, Dim 3])"
    using array_reduce_cases [of ?t13 ?fn ?ary "[Dim 5, Dim 2, Dim 3]" "[Dim 1, Dim 3]"]
    by (simp add: Ex_less_Suc)
  have 3: "infer_shape_array_reduce ?fn ?ary ?t43 = Inl MyiaShapeError"
    using array_reduce_cases [of ?t43 ?fn ?ary "[Dim 5, Dim 2, Dim 3]" "[Dim 4, Dim 3]"]
    by (simp add: Ex_less_Suc)
  have 4: "infer_shape_array_reduce ?fn ?ary1 ?t13 = Inl MyiaShapeError"
    using array_reduce_cases [of ?t13 ?fn ?ary1 "[Dim 3]" "[Dim 1, Dim 3]"]
    by simp
  from 1 2 3 4 show ?thesis by blast
qed

section \<open>\<open>dot\<close>\<close>

lemma py_len_two: "py_len s = Inr 2 \<Longrightarrow> (\<exists>x y. s = Dims [x, y]) \<or> (\<exists>x y. s = TupleShape [x, y])"
  by (cases s) (auto simp: length_Suc_conv eval_nat_numeral)

text \<open>
  Claim C6. For operand shapes that are dimension sequences, \<open>dot\<close> fails when either is not
  of rank 2, fails when the inner axes \<open>a[1]\<close> and \<open>b[0]\<close> differ and neither is the wildcard,
  and otherwise returns \<open>(a[0], b[1])\<close>. Any pair of shapes that is not a pair of rank-2
  dimension sequences makes the rule fail.
\<close>

theorem dot_cases:
  "(ref_shape a = Inr (Dims da) \<and> ref_shape b = Inr (Dims db) \<and>
      (length da \<noteq> 2 \<or> length db \<noteq> 2) \<longrightarrow>
      infer_shape_dot a b = Inl MyiaShapeError) \<and>
   (ref_shape a = Inr (Dims [a0, a1]) \<and> ref_shape b = Inr (Dims [b0, b1]) \<longrightarrow>
      infer_shape_dot a b =
        (if a1 \<noteq> b0 \<and> a1 \<noteq> ANYTHING \<and> b0 \<noteq> ANYTHING then Inl MyiaShapeError
         else Inr (Dims [a0, b1]))) \<and>
   (ref_shape a = Inr sa \<and> ref_shape b = Inr sb \<and>
      \<not> (\<exists>x y u v. sa = Dims [x, y] \<and> sb = Dims [u, v]) \<longrightarrow>
      isl (infer_shape_dot a b))"
proof (intro conjI impI)
  assume "ref_shape a = Inr (Dims da) \<and> ref_shape b = Inr (Dims db) \<and>
      (length da \<noteq> 2 \<or> length db \<noteq> 2)"
  then show "infer_shape_dot a b = Inl MyiaShapeError"
    by (auto simp: infer_shape_dot_def)
next
  assume "ref_shape a = Inr (Dims [a0, a1]) \<and> ref_shape b = Inr (Dims [b0, b1])"
  then show "infer_shape_dot a b =
        (if a1 \<noteq> b0 \<and> a1 \<noteq> ANYTHING \<and> b0 \<noteq> ANYTHING then Inl MyiaShapeError
         else Inr (Dims [a0, b1]))"
    by (simp add: infer_shape_dot_def)
next
  assume h: "ref_shape a = Inr sa \<and> ref_shape b = Inr sb \<and>
      \<not> (\<exists>x y u v. sa = Dims [x, y] \<and> sb = Dims [u, v])"
  show "isl (infer_shape_dot a b)"
  proof (cases "py_len sa = Inr 2 \<and> py_len sb = Inr 2")
    case False
    with h show ?thesis
      by (auto simp: infer_shape_dot_def split: sum.splits)
  next
    case True
    with h py_len_two [of sa] py_len_two [of sb]
    have "(\<exists>x y. sa = TupleShape [x, y]) \<or> (\<exists>x y. sb = TupleShape [x, y])"
      by blast
    with h True show ?thesis
      by (auto simp: infer_shape_dot_def split: shape.splits)
  qed
qed

text \<open>
  \<open>(3, 4)\<close> with \<open>(4, 5)\<close> gives \<open>(3, 5)\<close>; \<open>(3, 4)\<close> with \<open>(5, 6)\<close> fails; a wildcard inner axis
  is accepted; a rank-3 operand and a \<open>TupleShape\<close> operand fail.
\<close>

theorem dot_cases_witness:
  "infer_shape_dot
     \<lparr>ref_shape = Inr (Dims [Dim 3, Dim 4]), ref_value = Inr VANYTHING, ref_type = Inr ScalarT\<rparr>
     \<lparr>ref_shape = Inr (Dims [Dim 4, Dim 5]), ref_value = Inr VANYTHING, ref_type = Inr ScalarT\<rparr>
     = Inr (Dims [Dim 3, Dim 5]) \<and>
   infer_shape_dot
     \<lparr>ref_shape = Inr (Dims [Dim 3, Dim 4]), ref_value = Inr VANYTHING, ref_type = Inr ScalarT\<rparr>
     \<lparr>ref_shape = Inr (Dims [Dim 5, Dim 6]), ref_value = Inr VANYTHING, ref_type = Inr ScalarT\<rparr>
     = Inl MyiaShapeError \<and>
   infer_shape_dot
     \<lparr>ref_shape = Inr (Dims [Dim 3, ANYTHING]), ref_value = Inr VANYTHING, ref_type = Inr ScalarT\<rparr>
     \<lparr>ref_shape = Inr (Dims [Dim 5, Dim 6]), ref_value = Inr VANYTHING, ref_type = Inr ScalarT\<rparr>
     = Inr (Dims [Dim 3, Dim 6]) \<and>
   infer_shape_dot
     \<lparr>ref_shape = Inr (Dims [Dim 3, Dim 4, Dim 5]), ref_value = Inr VANYTHING, ref_type = Inr ScalarT\<rparr>
     \<lparr>ref_shape = Inr (Dims [Dim 5, Dim 6]), ref_value = Inr VANYTHING, ref_type = Inr ScalarT\<rparr>
     = Inl MyiaShapeError \<and>
   isl (infer_shape_dot
     \<lparr>ref_shape = Inr (TupleShape [NOSHAPE, NOSHAPE]), ref_value = Inr VANYTHING, ref_type = Inr ScalarT\<rparr>
     \<lparr>ref_shape = Inr (Dims [Dim 5, Dim 6]), ref_value = Inr VANYTHING, ref_type = Inr ScalarT\<rparr>)"
proof -
  let ?r34 = "\<lparr>ref_shape = Inr (Dims [Dim 3, Dim 4]), ref_value = Inr VANYTHING, ref_type = Inr ScalarT\<rparr>"
  let ?r45 = "\<lparr>ref_shape = Inr (Dims [Dim 4, Dim 5]), ref_value = Inr VANYTHING, ref_type = Inr ScalarT\<rparr>"
  let ?r56 = "\<lparr>ref_shape = Inr (Dims [Dim 5, Dim 6]), ref_value = Inr VANYTHING, ref_type = Inr ScalarT\<rparr>"
  let ?r3a = "\<lparr>ref_shape = Inr (Dims [Dim 3, ANYTHING]), ref_value = Inr VANYTHING, ref_type = Inr ScalarT\<rparr>"
  let ?r345 = "\<lparr>ref_shape = Inr (Dims [Dim 3, Dim 4, Dim 5]), ref_value = Inr VANYTHING, ref_type = Inr ScalarT\<rparr>"
  let ?rt = "\<lparr>ref_shape = Inr (TupleShape [NOSHAPE, NOSHAPE]), ref_value = Inr VANYTHING, ref_type = Inr ScalarT\<rparr>"
  have 1: "infer_shape_dot ?r34 ?r45 = Inr (Dims [Dim 3, Dim 5])"
    using dot_cases [of ?r34 "[]" ?r45 "[]" "Dim 3" "Dim 4" "Dim 4" "Dim 5" NOSHAPE NOSHAPE] by simp
  have 2: "infer_shape_dot ?r34 ?r56 = Inl MyiaShapeError"
    using dot_cases [of ?r34 "[]" ?r56 "[]" "Dim 3" "Dim 4" "Dim 5" "Dim 6" NOSHAPE NOSHAPE] by simp
  have 3: "infer_shape_dot ?r3a ?r56 = Inr (Dims [Dim 3, Dim 6])"
    using dot_cases [of ?r3a "[]" ?r56 "[]" "Dim 3" ANYTHING "Dim 5" "Dim 6" NOSHAPE NOSHAPE] by simp
  have 4: "infer_shape_dot ?r345 ?r56 = Inl MyiaShapeError"
    using dot_cases [of ?r345 "[Dim 3, Dim 4, Dim 5]" ?r56 "[Dim 5, Dim 6]" "Dim 3" "Dim 4" "Dim 5" "Dim 6"
        NOSHAPE NOSHAPE] by simp
  have 5: "isl (infer_shape_dot ?rt ?r56)"
    using dot_cases [of ?rt "[]" ?r56 "[]" "Dim 3" "Dim 4" "Dim 5" "Dim 6"
        "TupleShape [NOSHAPE, NOSHAPE]" "Dims [Dim 5, Dim 6]"] by simp
  from 1 2 3 4 5 show ?thesis by blast
qed

section \<open>\<open>reshape\<close>\<close>

lemma prod_from_concrete: "prod_from acc (map Dim ns) = Inr (acc * prod_list ns)"
  by (induction ns arbitrary: acc) (simp_all add: mult.assoc)

lemma prod_concrete: "prod (map Dim ns) = Inr (prod_list ns)"
  by (simp add: prod_def prod_from_concrete)

lemma no_wildcard_concrete: "list_all (\<lambda>s. s \<noteq> ANYTHING) (map Dim ns)"
  by (simp add: list_all_iff)

lemma wildcard_free_cases: "ANYTHING \<in> set ds \<or> (\<exists>ns. ds = map Dim ns)"
proof (induction ds)
  case Nil
  then show ?case by simp
next
  case (Cons d ds)
  show ?case
  proof (cases d)
    case (Dim n)
    with Cons show ?thesis
      by (auto simp: Cons_eq_map_conv intro: exI [of _ "n # _"])
  next
    case ANYTHING
    then show ?thesis by simp
  qed
qed

text \<open>
  Claim C7. With a source shape and a target that are dimension sequences, \<open>reshape\<close> fails
  if and only if neither contains a wildcard and their products differ (the lists without
  wildcard are those of the form \<open>map Dim ns\<close>); in every other case it returns the target.
  In particular a wildcard on either side skips the product test, also when the target is
  unknown as a whole and is filled with wildcards from its tuple type.
\<close>

theorem reshape_cases:
  "(ref_value shape = Inr (VTuple shp) \<and> ref_shape v = Inr (Dims vs) \<longrightarrow>
      (isl (infer_shape_reshape v shape) \<longleftrightarrow>
         (\<exists>ns ms. shp = map Dim ns \<and> vs = map Dim ms \<and> prod_list ns \<noteq> prod_list ms)) \<and>
      (infer_shape_reshape v shape = Inl MyiaShapeError \<or>
       infer_shape_reshape v shape = Inr (Dims shp))) \<and>
   (ref_value shape = Inr (VTuple (map Dim ns)) \<and> ref_shape v = Inr (Dims (map Dim ms)) \<longrightarrow>
      infer_shape_reshape v shape =
        (if prod_list ns \<noteq> prod_list ms then Inl MyiaShapeError else Inr (Dims (map Dim ns)))) \<and>
   (ref_value shape = Inr (VTuple shp) \<and> ref_shape v = Inr (Dims vs) \<and>
      (ANYTHING \<in> set shp \<or> ANYTHING \<in> set vs) \<longrightarrow>
      infer_shape_reshape v shape = Inr (Dims shp)) \<and>
   (ref_value shape = Inr VANYTHING \<and> ref_type shape = Inr (TupleT elements) \<and> elements \<noteq> [] \<and>
      ref_shape v = Inr s \<longrightarrow>
      infer_shape_reshape v shape = Inr (Dims (replicate (length elements) ANYTHING)))"
proof -
  have concrete: "infer_shape_reshape v shape =
        (if prod_list ns \<noteq> prod_list ms then Inl MyiaShapeError else Inr (Dims (map Dim ns)))"
    if "ref_value shape = Inr (VTuple (map Dim ns))" "ref_shape v = Inr (Dims (map Dim ms))"
    for ns ms
    using that
    by (simp add: infer_shape_reshape_def target_shape_def prod_concrete no_wildcard_concrete)
  have wild: "infer_shape_reshape v shape = Inr (Dims shp)"
    if "ref_value shape = Inr (VTuple shp)" "ref_shape v = Inr (Dims vs)"
      "ANYTHING \<in> set shp \<or> ANYTHING \<in> set vs"
    using that by (auto simp: infer_shape_reshape_def target_shape_def list_all_iff)
  have unknown: "infer_shape_reshape v shape = Inr (Dims (replicate (length elements) ANYTHING))"
    if h: "ref_value shape = Inr VANYTHING" "ref_type shape = Inr (TupleT elements)"
      "elements \<noteq> []" "ref_shape v = Inr s"
  proof -
    from h have "\<not> list_all (\<lambda>d. d \<noteq> ANYTHING) (replicate (length elements) ANYTHING)"
      by (simp add: list_all_iff)
    with h show ?thesis
      by (simp add: infer_shape_reshape_def target_shape_def)
  qed
  have iff: "(isl (infer_shape_reshape v shape) \<longleftrightarrow>
         (\<exists>ns ms. shp = map Dim ns \<and> vs = map Dim ms \<and> prod_list ns \<noteq> prod_list ms)) \<and>
      (infer_shape_reshape v shape = Inl MyiaShapeError \<or>
       infer_shape_reshape v shape = Inr (Dims shp))"
    if h: "ref_value shape = Inr (VTuple shp)" "ref_shape v = Inr (Dims vs)"
  proof (cases "ANYTHING \<in> set shp \<or> ANYTHING \<in> set vs")
    case True
    then have "\<not> (\<exists>ns ms. shp = map Dim ns \<and> vs = map Dim ms \<and> prod_list ns \<noteq> prod_list ms)"
      by auto
    with wild [OF h True] show ?thesis by simp
  next
    case False
    then obtain ns ms where nm: "shp = map Dim ns" "vs = map Dim ms"
      using wildcard_free_cases [of shp] wildcard_free_cases [of vs] by blast
    have inj: "map Dim xs = map Dim ys \<longleftrightarrow> xs = ys" for xs ys
      by (simp add: inj_on_def inj_map_eq_map)
    from concrete [of ns ms] h nm show ?thesis
      by (auto simp: inj)
  qed
  from concrete wild unknown iff show ?thesis by blast
qed

text \<open>
  \<open>(2, 3)\<close> to \<open>(3, 2)\<close> succeeds and to \<open>(4, 2)\<close> fails; a wildcard in the target, in the
  source, or an unknown target of a two-element tuple type succeeds.
\<close>

theorem reshape_cases_witness:
  "infer_shape_reshape
     \<lparr>ref_shape = Inr (Dims [Dim 2, Dim 3]), ref_value = Inr VANYTHING, ref_type = Inr ScalarT\<rparr>
     \<lparr>ref_shape = Inr NOSHAPE, ref_value = Inr (VTuple [Dim 3, Dim 2]), ref_type = Inr ScalarT\<rparr>
     = Inr (Dims [Dim 3, Dim 2]) \<and>
   infer_shape_reshape
     \<lparr>ref_shape = Inr (Dims [Dim 2, Dim 3]), ref_value = Inr VANYTHING, ref_type = Inr ScalarT\<rparr>
     \<lparr>ref_shape = Inr NOSHAPE, ref_value = Inr (VTuple [Dim 4, Dim 2]), ref_type = Inr ScalarT\<rparr>
     = Inl MyiaShapeError \<and>
   isl (infer_shape_reshape
     \<lparr>ref_shape = Inr (Dims [Dim 2, Dim 3]), ref_value = Inr VANYTHING, ref_type = Inr ScalarT\<rparr>
     \<lparr>ref_shape = Inr NOSHAPE, ref_value = Inr (VTuple [Dim 4, Dim 2]), ref_type = Inr ScalarT\<rparr>) \<and>
   infer_shape_reshape
     \<lparr>ref_shape = Inr (Dims [Dim 2, Dim 3]), ref_value = Inr VANYTHING, ref_type = Inr ScalarT\<rparr>
     \<lparr>ref_shape = Inr NOSHAPE, ref_value = Inr (VTuple [Dim 4, ANYTHING]), ref_type = Inr ScalarT\<rparr>
     = Inr (Dims [Dim 4, ANYTHING]) \<and>
   infer_shape_reshape
     \<lparr>ref_shape = Inr (Dims [ANYTHING, Dim 3]), ref_value = Inr VANYTHING, ref_type = Inr ScalarT\<rparr>
     \<lparr>ref_shape = Inr NOSHAPE, ref_value = Inr (VTuple [Dim 4, Dim 2]), ref_type = Inr ScalarT\<rparr>
     = Inr (Dims [Dim 4, Dim 2]) \<and>
   infer_shape_reshape
     \<lparr>ref_shape = Inr (Dims [Dim 2, Dim 3]), ref_value = Inr VANYTHING, ref_type = Inr ScalarT\<rparr>
     \<lparr>ref_shape = Inr NOSHAPE, ref_value = Inr VANYTHING, ref_type = Inr (TupleT [ScalarT, ScalarT])\<rparr>
     = Inr (Dims [ANYTHING, ANYTHING])"
proof -
  let ?v23 = "\<lparr>ref_shape = Inr (Dims [Dim 2, Dim 3]), ref_value = Inr VANYTHING, ref_type = Inr ScalarT\<rparr>"
  let ?va3 = "\<lparr>ref_shape = Inr (Dims [ANYTHING, Dim 3]), ref_value = Inr VANYTHING, ref_type = Inr ScalarT\<rparr>"
  let ?t32 = "\<lparr>ref_shape = Inr NOSHAPE, ref_value = Inr (VTuple [Dim 3, Dim 2]), ref_type = Inr ScalarT\<rparr>"
  let ?t42 = "\<lparr>ref_shape = Inr NOSHAPE, ref_value = Inr (VTuple [Dim 4, Dim 2]), ref_type = Inr ScalarT\<rparr>"
  let ?t4a = "\<lparr>ref_shape = Inr NOSHAPE, ref_value = Inr (VTuple [Dim 4, ANYTHING]), ref_type = Inr ScalarT\<rparr>"
  let ?tu = "\<lparr>ref_shape = Inr NOSHAPE, ref_value = Inr VANYTHING, ref_type = Inr (TupleT [ScalarT, ScalarT])\<rparr>"
  have 1: "infer_shape_reshape ?v23 ?t32 = Inr (Dims [Dim 3, Dim 2])"
    using reshape_cases [of ?t32 "[]" ?v23 "[]" "[3, 2]" "[2, 3]" "[]" NOSHAPE] by simp
  have 2: "infer_shape_reshape ?v23 ?t42 = Inl MyiaShapeError"
    using reshape_cases [of ?t42 "[]" ?v23 "[]" "[4, 2]" "[2, 3]" "[]" NOSHAPE] by simp
  have 3: "isl (infer_shape_reshape ?v23 ?t42)"
  proof -
    have "\<exists>ns ms. [Dim 4, Dim 2] = map Dim ns \<and> [Dim 2, Dim 3] = map Dim ms \<and>
            prod_list ns \<noteq> prod_list ms"
      by (rule exI [of _ "[4, 2]"], rule exI [of _ "[2, 3]"]) simp
    then show ?thesis
      using reshape_cases [of ?t42 "[Dim 4, Dim 2]" ?v23 "[Dim 2, Dim 3]" "[]" "[]" "[]" NOSHAPE]
      by simp
  qed
  have 4: "infer_shape_reshape ?v23 ?t4a = Inr (Dims [Dim 4, ANYTHING])"
    using reshape_cases [of ?t4a "[Dim 4, ANYTHING]" ?v23 "[Dim 2, Dim 3]" "[]" "[]" "[]" NOSHAPE]
    by simp
  have 5: "infer_shape_reshape ?va3 ?t42 = Inr (Dims [Dim 4, Dim 2])"
    using reshape_cases [of ?t42 "[Dim 4, Dim 2]" ?va3 "[ANYTHING, Dim 3]" "[]" "[]" "[]" NOSHAPE]
    by simp
  have 6: "infer_shape_reshape ?v23 ?tu = Inr (Dims [ANYTHING, ANYTHING])"
    using reshape_cases [of ?tu "[]" ?v23 "[]" "[]" "[]" "[ScalarT, ScalarT]" "Dims [Dim 2, Dim 3]"]
    by (simp add: numeral_2_eq_2)
  from 1 2 3 4 5 6 show ?thesis by blast
qed

section \<open>\<open>array_map\<close>\<close>

lemma collect_all_ok:
  "\<forall>x\<in>set rs. \<not> isl x \<Longrightarrow> collect rs = Inr (map projr rs)"
  by (induction rs) (auto split: sum.splits)

lemma collect_one_error:
  "\<forall>x\<in>set rs. x = Inl e \<or> \<not> isl x \<Longrightarrow> \<exists>x\<in>set rs. x = Inl e \<Longrightarrow> collect rs = Inl e"
proof (induction rs)
  case Nil
  then show ?case by simp
next
  case (Cons r rs)
  show ?case
  proof (cases r)
    case (Inl a)
    with Cons.prems show ?thesis by auto
  next
    case (Inr b)
    with Cons.prems have "\<exists>x\<in>set rs. x = Inl e" by auto
    with Cons have "collect rs = Inl e" by simp
    with Inr show ?thesis by simp
  qed
qed

lemma zip_star_columns:
  "rows \<noteq> [] \<Longrightarrow> \<forall>r\<in>set rows. length r = n \<Longrightarrow>
   zip_star rows = map (\<lambda>i. map (\<lambda>r. r ! i) rows) [0..<n]"
proof (induction n arbitrary: rows)
  case 0
  then obtain r rs where "rows = r # rs" by (cases rows) auto
  with 0 show ?case by (simp add: list_ex_iff)
next
  case (Suc n)
  then obtain r rs where rows: "rows = r # rs" by (cases rows) auto
  from Suc.prems have ne: "\<not> list_ex (\<lambda>r. r = []) rows"
    by (auto simp: list_ex_iff)
  have tl: "map tl rows \<noteq> []" "\<forall>r\<in>set (map tl rows). length r = n"
    using Suc.prems by auto
  have hd: "map hd rows = map (\<lambda>r. r ! 0) rows"
  proof (rule map_cong [OF refl])
    fix x assume "x \<in> set rows"
    with Suc.prems have "x \<noteq> []" by auto
    then show "hd x = x ! 0" by (rule hd_conv_nth)
  qed
  have nth: "map (\<lambda>r. r ! i) (map tl rows) = map (\<lambda>r. r ! Suc i) rows" if "i < n" for i
    using Suc.prems that by (auto simp: nth_tl)
  have "zip_star rows = map hd rows # zip_star (map tl rows)"
    using ne rows by simp
  also have "zip_star (map tl rows) = map (\<lambda>i. map (\<lambda>r. r ! i) (map tl rows)) [0..<n]"
    by (rule Suc.IH [OF tl])
  also have "\<dots> = map (\<lambda>i. map (\<lambda>r. r ! Suc i) rows) [0..<n]"
    using nth by simp
  finally show ?case
    by (simp add: hd upt_conv_Cons map_Suc_upt [symmetric] del: upt_Suc)
qed

lemma entries_set:
  "set (List.insert ANYTHING (remdups column)) = insert ANYTHING (Dim ` {n. Dim n \<in> set column})"
proof -
  have "set column - {ANYTHING} = Dim ` {n. Dim n \<in> set column}"
  proof (intro set_eqI iffI)
    fix x assume "x \<in> set column - {ANYTHING}"
    then show "x \<in> Dim ` {n. Dim n \<in> set column}" by (cases x) auto
  qed auto
  then show ?thesis by auto
qed

lemma entries_length:
  "length (List.insert ANYTHING (remdups column)) = Suc (card {n. Dim n \<in> set column})"
proof -
  have fin: "finite {n. Dim n \<in> set column}"
  proof (rule finite_imageD)
    show "finite (Dim ` {n. Dim n \<in> set column})"
      by (rule finite_subset [of _ "set column"]) auto
    show "inj_on Dim {n. Dim n \<in> set column}" by (simp add: inj_on_def)
  qed
  have "distinct (List.insert ANYTHING (remdups column))" by simp
  then have "length (List.insert ANYTHING (remdups column))
      = card (set (List.insert ANYTHING (remdups column)))"
    by (simp only: distinct_card)
  also have "\<dots> = card (insert ANYTHING (Dim ` {n. Dim n \<in> set column}))"
    by (simp only: entries_set)
  also have "\<dots> = Suc (card (Dim ` {n. Dim n \<in> set column}))"
    using fin by (subst card_insert_disjoint) auto
  also have "card (Dim ` {n. Dim n \<in> set column}) = card {n. Dim n \<in> set column}"
    by (rule card_image) (simp add: inj_on_def)
  finally show ?thesis .
qed

lemma axis_entry_wildcards:
  assumes "\<forall>d\<in>set column. d = ANYTHING"
  shows "axis_entry column = Inr ANYTHING"
proof -
  from assms have "{n. Dim n \<in> set column} = {}" by auto
  then show ?thesis by (simp add: axis_entry_def Let_def entries_length del: List.insert_remdups)
qed

lemma axis_entry_single:
  assumes "Dim n \<in> set column" and "\<forall>m. Dim m \<in> set column \<longrightarrow> m = n"
  shows "axis_entry column = Inr (Dim n)"
proof -
  let ?entries = "List.insert ANYTHING (remdups column)"
  have c: "{m. Dim m \<in> set column} = {n}"
  proof (rule set_eqI)
    fix m show "m \<in> {m. Dim m \<in> set column} \<longleftrightarrow> m \<in> {n}"
      using assms by blast
  qed
  have len: "length ?entries = 2"
    by (simp only: entries_length c) simp
  have "set (removeAll ANYTHING ?entries) = insert ANYTHING (Dim ` {n}) - {ANYTHING}"
    by (simp only: set_removeAll entries_set c)
  then have s: "set (removeAll ANYTHING ?entries) = {Dim n}"
    by simp
  have d: "distinct (removeAll ANYTHING ?entries)"
    by (simp only: distinct_removeAll distinct_insert distinct_remdups)
  obtain ys where ys: "removeAll ANYTHING ?entries = ys" by simp
  from s d ys have ys_s: "set ys = {Dim n}" and ys_d: "distinct ys" by simp_all
  from ys_d have "length ys = card (set ys)" by (simp only: distinct_card)
  with ys_s have "length ys = 1" by simp
  then obtain y where "ys = [y]" by (cases ys) auto
  with ys_s have "ys = [Dim n]" by simp
  with ys have r: "removeAll ANYTHING ?entries = [Dim n]" by simp
  show ?thesis
    unfolding axis_entry_def Let_def
    by (simp only: len r) simp
qed

lemma axis_entry_clash:
  assumes "Dim m \<in> set column" and "Dim n \<in> set column" and "m \<noteq> n"
  shows "axis_entry column = Inl MyiaShapeError"
proof -
  have fin: "finite {k. Dim k \<in> set column}"
  proof (rule finite_imageD)
    show "finite (Dim ` {k. Dim k \<in> set column})"
      by (rule finite_subset [of _ "set column"]) auto
    show "inj_on Dim {k. Dim k \<in> set column}" by (simp add: inj_on_def)
  qed
  from assms have "{m, n} \<subseteq> {k. Dim k \<in> set column}" by auto
  with fin have "card {m, n} \<le> card {k. Dim k \<in> set column}" by (rule card_mono)
  with assms(3) have "2 \<le> card {k. Dim k \<in> set column}" by simp
  then show ?thesis
    by (simp add: axis_entry_def Let_def entries_length del: List.insert_remdups)
qed

lemma differing_len_dims:
  "differing_len (Dims d0) (map Dims ds) = Inr (\<exists>d\<in>set ds. length d \<noteq> length d0)"
  by (induction ds) auto


lemma collect_Inr: "collect (map Inr xs) = Inr xs"
  by (induction xs) simp_all

lemma axis_entry_total:
  "axis_entry column = Inl MyiaShapeError \<or> \<not> isl (axis_entry column)"
proof (cases "\<exists>m n. Dim m \<in> set column \<and> Dim n \<in> set column \<and> m \<noteq> n")
  case True
  then show ?thesis using axis_entry_clash by blast
next
  case False
  show ?thesis
  proof (cases "\<exists>n. Dim n \<in> set column")
    case True
    then obtain n where n: "Dim n \<in> set column" ..
    with False have "\<forall>m. Dim m \<in> set column \<longrightarrow> m = n" by blast
    with n have "axis_entry column = Inr (Dim n)" by (rule axis_entry_single)
    then show ?thesis by simp
  next
    case False
    have "\<forall>d\<in>set column. d = ANYTHING"
    proof
      fix d assume "d \<in> set column"
      with False show "d = ANYTHING" by (cases d) auto
    qed
    then have "axis_entry column = Inr ANYTHING" by (rule axis_entry_wildcards)
    then show ?thesis by simp
  qed
qed

lemma array_map_dims:
  assumes shapes: "map ref_shape arrays = map (\<lambda>d. Inr (Dims d)) (d0 # ds)"
  shows "infer_shape_array_map fn arrays =
           (if \<exists>d\<in>set ds. length d \<noteq> length d0 then Inl MyiaShapeError
            else case collect (map axis_entry (zip_star (d0 # ds))) of
                   Inl err \<Rightarrow> Inl err
                 | Inr rshape \<Rightarrow> Inr (Dims rshape))"
proof -
  have "map ref_shape arrays = map Inr (map Dims (d0 # ds))"
    using shapes by simp
  then have c: "collect (map ref_shape arrays) = Inr (Dims d0 # map Dims ds)"
    by (simp only: collect_Inr) simp
  have t: "list_all isinstance_tuple (map Dims ds)"
    by (simp add: list_all_iff)
  have i: "map (items \<circ> Dims) ds = ds"
    by (simp add: comp_def)
  show ?thesis
    unfolding infer_shape_array_map_def c
    by (simp add: differing_len_dims t i del: zip_star.simps)
qed

text \<open>
  Claim C8. For operands whose shapes are the dimension sequences \<open>d0 # ds\<close>: when two of
  them differ in rank, \<open>array_map\<close> raises \<open>MyiaShapeError\<close>; when all have one rank and some
  axis shows two different concrete values, it raises \<open>MyiaShapeError\<close>; otherwise it returns
  a dimension sequence of that rank which is \<open>ANYTHING\<close> at each axis where every operand has
  \<open>ANYTHING\<close> and is the one concrete value at each axis where an operand shows one.
\<close>

theorem array_map_cases:
  "map ref_shape arrays = map (\<lambda>d. Inr (Dims d)) (d0 # ds) \<longrightarrow>
     ((\<exists>d\<in>set ds. length d \<noteq> length d0) \<longrightarrow>
        infer_shape_array_map fn arrays = Inl MyiaShapeError) \<and>
     ((\<forall>d\<in>set ds. length d = length d0) \<and>
      (\<exists>i<length d0. \<exists>m n. m \<noteq> n \<and> (\<exists>d\<in>set (d0 # ds). d ! i = Dim m) \<and>
                                      (\<exists>d\<in>set (d0 # ds). d ! i = Dim n)) \<longrightarrow>
        infer_shape_array_map fn arrays = Inl MyiaShapeError) \<and>
     ((\<forall>d\<in>set ds. length d = length d0) \<and>
      \<not> (\<exists>i<length d0. \<exists>m n. m \<noteq> n \<and> (\<exists>d\<in>set (d0 # ds). d ! i = Dim m) \<and>
                                        (\<exists>d\<in>set (d0 # ds). d ! i = Dim n)) \<longrightarrow>
        (\<exists>r. infer_shape_array_map fn arrays = Inr (Dims r) \<and> length r = length d0 \<and>
             (\<forall>i<length d0.
                ((\<forall>d\<in>set (d0 # ds). d ! i = ANYTHING) \<longrightarrow> r ! i = ANYTHING) \<and>
                (\<forall>n. (\<exists>d\<in>set (d0 # ds). d ! i = Dim n) \<longrightarrow> r ! i = Dim n))))"
proof (intro impI conjI)
  assume shapes: "map ref_shape arrays = map (\<lambda>d. Inr (Dims d)) (d0 # ds)"
  assume "\<exists>d\<in>set ds. length d \<noteq> length d0"
  then show "infer_shape_array_map fn arrays = Inl MyiaShapeError"
    by (simp only: array_map_dims [OF shapes] if_True)
next
  let ?col = "\<lambda>i. map (\<lambda>r. r ! i) (d0 # ds)"
  assume shapes: "map ref_shape arrays = map (\<lambda>d. Inr (Dims d)) (d0 # ds)"
  assume h: "(\<forall>d\<in>set ds. length d = length d0) \<and>
      (\<exists>i<length d0. \<exists>m n. m \<noteq> n \<and> (\<exists>d\<in>set (d0 # ds). d ! i = Dim m) \<and>
                                      (\<exists>d\<in>set (d0 # ds). d ! i = Dim n))"
  then have len: "\<forall>r\<in>set (d0 # ds). length r = length d0" by simp
  have z: "zip_star (d0 # ds) = map ?col [0..<length d0]"
    by (rule zip_star_columns [OF _ len]) simp
  from h obtain i m n where i: "i < length d0" "m \<noteq> n"
    "\<exists>d\<in>set (d0 # ds). d ! i = Dim m" "\<exists>d\<in>set (d0 # ds). d ! i = Dim n"
    by blast
  from i(3) have "Dim m \<in> set (?col i)" by (force simp: image_iff)
  moreover from i(4) have "Dim n \<in> set (?col i)" by (force simp: image_iff)
  ultimately have "axis_entry (?col i) = Inl MyiaShapeError"
    using i(2) by (rule axis_entry_clash)
  with i(1) have ex: "\<exists>x\<in>set (map axis_entry (map ?col [0..<length d0])). x = Inl MyiaShapeError"
    by (auto simp: image_iff intro!: bexI [of _ i])
  have all: "\<forall>x\<in>set (map axis_entry (map ?col [0..<length d0])).
               x = Inl MyiaShapeError \<or> \<not> isl x"
    using axis_entry_total by auto
  have "collect (map axis_entry (map ?col [0..<length d0])) = Inl MyiaShapeError"
    by (rule collect_one_error [OF all ex])
  with h show "infer_shape_array_map fn arrays = Inl MyiaShapeError"
    by (simp add: array_map_dims [OF shapes] z del: zip_star.simps)
next
  let ?col = "\<lambda>i. map (\<lambda>r. r ! i) (d0 # ds)"
  let ?r = "map projr (map axis_entry (map ?col [0..<length d0]))"
  assume shapes: "map ref_shape arrays = map (\<lambda>d. Inr (Dims d)) (d0 # ds)"
  assume h: "(\<forall>d\<in>set ds. length d = length d0) \<and>
      \<not> (\<exists>i<length d0. \<exists>m n. m \<noteq> n \<and> (\<exists>d\<in>set (d0 # ds). d ! i = Dim m) \<and>
                                        (\<exists>d\<in>set (d0 # ds). d ! i = Dim n))"
  then have len: "\<forall>r\<in>set (d0 # ds). length r = length d0" by simp
  have z: "zip_star (d0 # ds) = map ?col [0..<length d0]"
    by (rule zip_star_columns [OF _ len]) simp
  have mem: "x \<in> set (?col i) \<longleftrightarrow> (\<exists>d\<in>set (d0 # ds). d ! i = x)" for x i
    by (auto simp: image_iff)
  have wild: "axis_entry (?col i) = Inr ANYTHING"
    if "\<forall>d\<in>set (d0 # ds). d ! i = ANYTHING" for i
  proof (rule axis_entry_wildcards)
    show "\<forall>d\<in>set (?col i). d = ANYTHING" using that by auto
  qed
  have single: "axis_entry (?col i) = Inr (Dim n)"
    if "i < length d0" "\<exists>d\<in>set (d0 # ds). d ! i = Dim n" for i n
  proof (rule axis_entry_single)
    show "Dim n \<in> set (?col i)" using that(2) by (simp only: mem)
    show "\<forall>m. Dim m \<in> set (?col i) \<longrightarrow> m = n"
    proof (intro allI impI)
      fix m assume "Dim m \<in> set (?col i)"
      then have "\<exists>d\<in>set (d0 # ds). d ! i = Dim m" by (simp only: mem)
      with that h show "m = n" by blast
    qed
  qed
  have ok: "\<not> isl (axis_entry (?col i))" if "i < length d0" for i
  proof (cases "\<exists>n. \<exists>d\<in>set (d0 # ds). d ! i = Dim n")
    case True
    then obtain n where "\<exists>d\<in>set (d0 # ds). d ! i = Dim n" ..
    with that have "axis_entry (?col i) = Inr (Dim n)" by (rule single)
    then show ?thesis by simp
  next
    case False
    have "\<forall>d\<in>set (d0 # ds). d ! i = ANYTHING"
    proof
      fix d assume "d \<in> set (d0 # ds)"
      with False show "d ! i = ANYTHING" by (cases "d ! i") auto
    qed
    then have "axis_entry (?col i) = Inr ANYTHING" by (rule wild)
    then show ?thesis by simp
  qed
  have "\<forall>x\<in>set (map axis_entry (map ?col [0..<length d0])). \<not> isl x"
    using ok by auto
  then have "collect (map axis_entry (map ?col [0..<length d0])) = Inr ?r"
    by (rule collect_all_ok)
  with h have res: "infer_shape_array_map fn arrays = Inr (Dims ?r)"
    by (simp add: array_map_dims [OF shapes] z del: zip_star.simps)
  have nth: "?r ! i = projr (axis_entry (?col i))" if "i < length d0" for i
    using that by simp
  have "\<forall>i<length d0.
          ((\<forall>d\<in>set (d0 # ds). d ! i = ANYTHING) \<longrightarrow> ?r ! i = ANYTHING) \<and>
          (\<forall>n. (\<exists>d\<in>set (d0 # ds). d ! i = Dim n) \<longrightarrow> ?r ! i = Dim n)"
  proof (intro allI impI conjI)
    fix i assume "i < length d0" "\<forall>d\<in>set (d0 # ds). d ! i = ANYTHING"
    then show "?r ! i = ANYTHING" by (simp only: nth wild) simp
  next
    fix i n assume "i < length d0" "\<exists>d\<in>set (d0 # ds). d ! i = Dim n"
    then show "?r ! i = Dim n" by (simp only: nth single) simp
  qed
  moreover have "length ?r = length d0" by simp
  ultimately show "\<exists>r. infer_shape_array_map fn arrays = Inr (Dims r) \<and> length r = length d0 \<and>
             (\<forall>i<length d0.
                ((\<forall>d\<in>set (d0 # ds). d ! i = ANYTHING) \<longrightarrow> r ! i = ANYTHING) \<and>
                (\<forall>n. (\<exists>d\<in>set (d0 # ds). d ! i = Dim n) \<longrightarrow> r ! i = Dim n))"
    using res by blast
qed

text \<open>
  Three operands \<open>(3, ANYTHING)\<close>, \<open>(ANYTHING, ANYTHING)\<close>, \<open>(3, ANYTHING)\<close> give
  \<open>(3, ANYTHING)\<close>; \<open>(3, 4)\<close> with \<open>(3, 5)\<close> and \<open>(3, 4)\<close> with \<open>(3)\<close> fail.
\<close>

theorem array_map_cases_witness:
  "infer_shape_array_map
     \<lparr>ref_shape = Inr (InferrerShape ScalarShapeInferrer), ref_value = Inr VANYTHING, ref_type = Inr ScalarT\<rparr>
     [\<lparr>ref_shape = Inr (Dims [Dim 3, ANYTHING]), ref_value = Inr VANYTHING, ref_type = Inr ScalarT\<rparr>,
      \<lparr>ref_shape = Inr (Dims [ANYTHING, ANYTHING]), ref_value = Inr VANYTHING, ref_type = Inr ScalarT\<rparr>,
      \<lparr>ref_shape = Inr (Dims [Dim 3, ANYTHING]), ref_value = Inr VANYTHING, ref_type = Inr ScalarT\<rparr>]
     = Inr (Dims [Dim 3, ANYTHING]) \<and>
   infer_shape_array_map
     \<lparr>ref_shape = Inr (InferrerShape ScalarShapeInferrer), ref_value = Inr VANYTHING, ref_type = Inr ScalarT\<rparr>
     [\<lparr>ref_shape = Inr (Dims [Dim 3, Dim 4]), ref_value = Inr VANYTHING, ref_type = Inr ScalarT\<rparr>,
      \<lparr>ref_shape = Inr (Dims [Dim 3, Dim 5]), ref_value = Inr VANYTHING, ref_type = Inr ScalarT\<rparr>]
     = Inl MyiaShapeError \<and>
   infer_shape_array_map
     \<lparr>ref_shape = Inr (InferrerShape ScalarShapeInferrer), ref_value = Inr VANYTHING, ref_type = Inr ScalarT\<rparr>
     [\<lparr>ref_shape = Inr (Dims [Dim 3, Dim 4]), ref_value = Inr VANYTHING, ref_type = Inr ScalarT\<rparr>,
      \<lparr>ref_shape = Inr (Dims [Dim 3]), ref_value = Inr VANYTHING, ref_type = Inr ScalarT\<rparr>]
     = Inl MyiaShapeError"
proof -
  let ?fn = "\<lparr>ref_shape = Inr (InferrerShape ScalarShapeInferrer), ref_value = Inr VANYTHING,
              ref_type = Inr ScalarT\<rparr>"
  let ?a3w = "\<lparr>ref_shape = Inr (Dims [Dim 3, ANYTHING]), ref_value = Inr VANYTHING, ref_type = Inr ScalarT\<rparr>"
  let ?aww = "\<lparr>ref_shape = Inr (Dims [ANYTHING, ANYTHING]), ref_value = Inr VANYTHING, ref_type = Inr ScalarT\<rparr>"
  let ?a34 = "\<lparr>ref_shape = Inr (Dims [Dim 3, Dim 4]), ref_value = Inr VANYTHING, ref_type = Inr ScalarT\<rparr>"
  let ?a35 = "\<lparr>ref_shape = Inr (Dims [Dim 3, Dim 5]), ref_value = Inr VANYTHING, ref_type = Inr ScalarT\<rparr>"
  let ?a3 = "\<lparr>ref_shape = Inr (Dims [Dim 3]), ref_value = Inr VANYTHING, ref_type = Inr ScalarT\<rparr>"
  have "\<exists>r. infer_shape_array_map ?fn [?a3w, ?aww, ?a3w] = Inr (Dims r) \<and> length r = 2 \<and>
          r ! 0 = Dim 3 \<and> r ! 1 = ANYTHING"
    using array_map_cases [of "[?a3w, ?aww, ?a3w]" "[Dim 3, ANYTHING]"
        "[[ANYTHING, ANYTHING], [Dim 3, ANYTHING]]" ?fn]
    by (auto simp: All_less_Suc Ex_less_Suc eval_nat_numeral)
  then obtain r where r: "infer_shape_array_map ?fn [?a3w, ?aww, ?a3w] = Inr (Dims r)"
    "length r = 2" "r ! 0 = Dim 3" "r ! 1 = ANYTHING"
    by blast
  from r(2-4) have "r = [Dim 3, ANYTHING]"
    by (simp add: list_eq_iff_nth_eq All_less_Suc eval_nat_numeral)
  with r(1) have 1: "infer_shape_array_map ?fn [?a3w, ?aww, ?a3w] = Inr (Dims [Dim 3, ANYTHING])"
    by simp
  have two: "\<exists>m n::int. m \<noteq> n \<and> (m = 4 \<or> m = 5) \<and> (n = 4 \<or> n = 5)"
    by (rule exI [of _ 4], rule exI [of _ 5], simp)
  have 2: "infer_shape_array_map ?fn [?a34, ?a35] = Inl MyiaShapeError"
    using array_map_cases [of "[?a34, ?a35]" "[Dim 3, Dim 4]" "[[Dim 3, Dim 5]]" ?fn] two
    by (simp add: All_less_Suc Ex_less_Suc eval_nat_numeral)
  have 3: "infer_shape_array_map ?fn [?a34, ?a3] = Inl MyiaShapeError"
    using array_map_cases [of "[?a34, ?a3]" "[Dim 3, Dim 4]" "[[Dim 3]]" ?fn]
    by simp
  from 1 2 3 show ?thesis by blast
qed

section \<open>\<open>tuple_getitem\<close>\<close>

text \<open>
  With a constant index inside the tuple, counted from either end, the rule returns the
  element of the \<open>TupleShape\<close> at that index; outside the tuple it raises \<open>IndexError\<close>.
\<close>

lemma tuple_getitem_constant:
  assumes "ref_shape seq = Inr (TupleShape shs)" and "ref_value idx = Inr (VInt k)"
  shows "0 \<le> k \<and> k < int (length shs) \<longrightarrow>
           infer_shape_tuple_getitem seq idx = Inr (ShapeItem (shs ! nat k))"
    and "- int (length shs) \<le> k \<and> k < 0 \<longrightarrow>
           infer_shape_tuple_getitem seq idx = Inr (ShapeItem (shs ! nat (int (length shs) + k)))"
    and "k < - int (length shs) \<or> int (length shs) \<le> k \<longrightarrow>
           infer_shape_tuple_getitem seq idx = Inl IndexError"
  using assms by (auto simp: infer_shape_tuple_getitem_def tuple_at_def)

text \<open>
  With the wildcard as index the rule fails for every tuple shape, and the exception is the
  \<open>TypeError\<close> of indexing a tuple, not an \<open>InferenceError\<close>: the rule has no test of the
  index.
\<close>

lemma tuple_getitem_wildcard:
  assumes "ref_shape seq = Inr (TupleShape shs)" and "ref_value idx = Inr VANYTHING"
  shows "infer_shape_tuple_getitem seq idx = Inl TypeError"
  using assms by (simp add: infer_shape_tuple_getitem_def)

text \<open>
  Claim C9, at a failing input: the shape \<open>TupleShape (NOSHAPE, (2, 3))\<close> indexed by a
  reference whose value is the wildcard. The claim expects an \<open>InferenceError\<close>; the rule
  raises \<open>TypeError\<close>.
\<close>

theorem tuple_getitem_wildcard_index:
  "infer_shape_tuple_getitem
     \<lparr>ref_shape = Inr (TupleShape [NOSHAPE, Dims [Dim 2, Dim 3]]), ref_value = Inr VANYTHING,
      ref_type = Inr (TupleT [ScalarT, ScalarT])\<rparr>
     \<lparr>ref_shape = Inr NOSHAPE, ref_value = Inr VANYTHING, ref_type = Inr ScalarT\<rparr>
     = Inl TypeError \<and>
   infer_shape_tuple_getitem
     \<lparr>ref_shape = Inr (TupleShape [NOSHAPE, Dims [Dim 2, Dim 3]]), ref_value = Inr VANYTHING,
      ref_type = Inr (TupleT [ScalarT, ScalarT])\<rparr>
     \<lparr>ref_shape = Inr NOSHAPE, ref_value = Inr VANYTHING, ref_type = Inr ScalarT\<rparr>
     \<noteq> Inl InferenceError"
  by (simp add: infer_shape_tuple_getitem_def)

end
